theory Spec2Isabelle
  imports Complex_Main "HOL-Library.Word"
begin

section \<open>Failure values and numbers\<close>

text \<open>
  Every way in which a call of the C++ code does not return normally is a value of
  \<open>error\<close>: \<open>DXTBX_ASSERT\<close> throws (\<open>Assertion_Failed\<close>), \<open>DXTBX_ERROR\<close> throws with
  its message (\<open>Fatal_Error\<close>), a routine of the array library throws
  (\<open>Library_Exception\<close>), and an unchecked read or write outside an array or through a
  null pointer has no defined result (\<open>Undefined_Behaviour\<close>).

  A C++ \<open>double\<close> is modelled by the real number it stands for. The product and the
  quotient of the two pixel/millimetre maps of a panel are rounded to the nearest
  binary64 number, as the machine does; the other geometric operations are computed
  exactly. Overflow to an infinity is not modelled: magnitudes are taken to stay
  within the finite doubles.

  \<open>std::size_t\<close> values (indices, sizes) are natural numbers below \<open>2 ^ 64\<close>, a C++ \<open>int\<close> is
  an integer of 32 bits; the conversions between the two are written out.
\<close>

datatype error =
    Assertion_Failed
  | Fatal_Error string
  | Library_Exception
  | Undefined_Behaviour



subsection \<open>Rounding to binary64\<close>

text \<open>
  A binary64 number is an integer multiple of a power of two: of \<open>2 ^ (e - 52)\<close> when its
  magnitude lies in \<open>[2 ^ e, 2 ^ (e + 1))\<close>, and of \<open>2 ^ -1074\<close> below \<open>2 ^ -1022\<close>. The result of
  an arithmetic operation is the exact result rounded to the nearest such multiple, a
  tie going to the even one.
\<close>

definition pow2 :: "int \<Rightarrow> real" where
  "pow2 k = (if 0 \<le> k then 2 ^ nat k else 1 / 2 ^ nat (- k))"

definition round_half_even :: "real \<Rightarrow> int" where
  "round_half_even q =
     (let f = \<lfloor>q\<rfloor>; d = q - of_int f
      in if d < 1 / 2 then f else if 1 / 2 < d then f + 1 else if even f then f else f + 1)"

definition binary64_exponent :: "real \<Rightarrow> int" where
  "binary64_exponent y = max \<lfloor>log 2 \<bar>y\<bar>\<rfloor> (- 1022)"

definition round_binary64 :: "real \<Rightarrow> real" where
  "round_binary64 y =
     (if y = 0 then 0
      else of_int (round_half_even (y / pow2 (binary64_exponent y - 52)))
             * pow2 (binary64_exponent y - 52))"

subsection \<open>Conversions between int and size_t\<close>

text \<open>
  The value an integer has as a 32-bit \<open>int\<close> (the result of an \<open>int\<close> operation that wraps
  around, or of narrowing a wider integer), the \<open>int\<close> a \<open>std::size_t\<close> narrows to, and the
  \<open>std::size_t\<close> an \<open>int\<close> converts to in a comparison of the two.
\<close>

definition cint_wrap :: "int \<Rightarrow> int" where
  "cint_wrap i = (let m = i mod 2 ^ 32 in if m < 2 ^ 31 then m else m - 2 ^ 32)"

definition int_of_size_t :: "nat \<Rightarrow> int" where
  "int_of_size_t n = cint_wrap (int n)"

definition size_t_of_int :: "int \<Rightarrow> nat" where
  "size_t_of_int i = nat (i mod 2 ^ 64)"


section \<open>Vectors and matrices (scitbx vec2, vec3, mat3)\<close>

type_synonym vec2 = "real \<times> real"
type_synonym vec3 = "real \<times> real \<times> real"

text \<open>A \<open>mat3\<close> is stored row by row: elements 0..2 are the first row.\<close>

type_synonym mat3 = "vec3 \<times> vec3 \<times> vec3"

fun vec3_dot :: "vec3 \<Rightarrow> vec3 \<Rightarrow> real" where
  "vec3_dot (a0, a1, a2) (b0, b1, b2) = a0 * b0 + a1 * b1 + a2 * b2"

fun vec3_cross :: "vec3 \<Rightarrow> vec3 \<Rightarrow> vec3" where
  "vec3_cross (a0, a1, a2) (b0, b1, b2) =
     (a1 * b2 - b1 * a2, a2 * b0 - b2 * a0, a0 * b1 - b0 * a1)"

fun vec3_scale :: "vec3 \<Rightarrow> real \<Rightarrow> vec3" where
  "vec3_scale (a0, a1, a2) k = (a0 * k, a1 * k, a2 * k)"

fun vec3_div :: "vec3 \<Rightarrow> real \<Rightarrow> vec3" where
  "vec3_div (a0, a1, a2) k = (a0 / k, a1 / k, a2 / k)"

definition vec3_length :: "vec3 \<Rightarrow> real" where
  "vec3_length a = sqrt (vec3_dot a a)"

definition vec3_normalize :: "vec3 \<Rightarrow> vec3" where
  "vec3_normalize a = vec3_div a (vec3_length a)"



fun mat3_determinant :: "mat3 \<Rightarrow> real" where
  "mat3_determinant ((m0, m1, m2), (m3, m4, m5), (m6, m7, m8)) =
     m0 * (m4 * m8 - m5 * m7) - m1 * (m3 * m8 - m5 * m6) + m2 * (m3 * m7 - m4 * m6)"

fun mat3_co_factor_matrix_transposed :: "mat3 \<Rightarrow> mat3" where
  "mat3_co_factor_matrix_transposed ((m0, m1, m2), (m3, m4, m5), (m6, m7, m8)) =
     ((m4 * m8 - m5 * m7, - m1 * m8 + m2 * m7, m1 * m5 - m2 * m4),
      (- m3 * m8 + m5 * m6, m0 * m8 - m2 * m6, - m0 * m5 + m2 * m3),
      (m3 * m7 - m4 * m6, - m0 * m7 + m1 * m6, m0 * m4 - m1 * m3))"

fun mat3_div :: "mat3 \<Rightarrow> real \<Rightarrow> mat3" where
  "mat3_div (r0, r1, r2) k = (vec3_div r0 k, vec3_div r1 k, vec3_div r2 k)"

text \<open>scitbx refuses to invert a matrix whose determinant is zero.\<close>

definition mat3_inverse :: "mat3 \<Rightarrow> error + mat3" where
  "mat3_inverse m =
     (let d = mat3_determinant m
      in if d = 0 then Inl Library_Exception
         else Inr (mat3_div (mat3_co_factor_matrix_transposed m) d))"




section \<open>Panel (model/panel.h)\<close>

text \<open>A C++ \<open>int\<close> (32 bits), and the \<open>int4\<close> of a masked region.\<close>

type_synonym cint = "32 word"
type_synonym int4 = "cint \<times> cint \<times> cint \<times> cint"

text \<open>
  Modelled from the spec: the scalar gain of a panel (the field \<open>Panel_gain\<close>), which the
  image set reads through \<open>Panel::get_gain\<close>; the accessor is not part of panel.h. The
  other fields are the members of \<open>class Panel\<close>, named without the trailing underscore
  behind the name of the class: \<open>Panel_d\<close> is \<open>d_\<close>, the frame matrix, \<open>Panel_D\<close> is \<open>D_\<close>, its
  inverse. An image size is a pair of \<open>std::size_t\<close>; two of the estimators below narrow
  it to \<open>int\<close>.
\<close>

record Panel =
  Panel_type :: string
  Panel_d :: mat3
  Panel_D :: mat3
  Panel_pixel_size :: vec2
  Panel_image_size :: "nat \<times> nat"
  Panel_trusted_range :: vec2
  Panel_mask :: "int4 list"
  Panel_gain :: real

definition create_d_matrix :: "vec3 \<Rightarrow> vec3 \<Rightarrow> vec3 \<Rightarrow> mat3" where
  "create_d_matrix fast_axis slow_axis origin =
     (case (fast_axis, slow_axis, origin) of
        ((f0, f1, f2), (s0, s1, s2), (o0, o1, o2)) \<Rightarrow>
          ((f0, s0, o0), (f1, s1, o1), (f2, s2, o2)))"

text \<open>The constructor with a frame; the mask starts empty.\<close>

definition Panel_init ::
  "string \<Rightarrow> vec3 \<Rightarrow> vec3 \<Rightarrow> vec3 \<Rightarrow> vec2 \<Rightarrow> nat \<times> nat \<Rightarrow> vec2 \<Rightarrow> real \<Rightarrow> error + Panel" where
  "Panel_init type fast_axis slow_axis origin pixel_size image_size trusted_range gain =
     (let d = create_d_matrix (vec3_normalize fast_axis) (vec3_normalize slow_axis) origin
      in case mat3_inverse d of
           Inl e \<Rightarrow> Inl e
         | Inr D \<Rightarrow>
             Inr \<lparr>Panel_type = type, Panel_d = d, Panel_D = D, Panel_pixel_size = pixel_size,
                  Panel_image_size = image_size, Panel_trusted_range = trusted_range,
                  Panel_mask = [], Panel_gain = gain\<rparr>)"

definition get_fast_axis :: "Panel \<Rightarrow> vec3" where
  "get_fast_axis p =
     (case Panel_d p of ((m0, m1, m2), (m3, m4, m5), (m6, m7, m8)) \<Rightarrow> (m0, m3, m6))"

definition get_slow_axis :: "Panel \<Rightarrow> vec3" where
  "get_slow_axis p =
     (case Panel_d p of ((m0, m1, m2), (m3, m4, m5), (m6, m7, m8)) \<Rightarrow> (m1, m4, m7))"

definition get_origin :: "Panel \<Rightarrow> vec3" where
  "get_origin p =
     (case Panel_d p of ((m0, m1, m2), (m3, m4, m5), (m6, m7, m8)) \<Rightarrow> (m2, m5, m8))"

definition get_normal :: "Panel \<Rightarrow> vec3" where
  "get_normal p = vec3_cross (get_fast_axis p) (get_slow_axis p)"

definition get_gain_panel :: "Panel \<Rightarrow> real" where
  "get_gain_panel p = Panel_gain p"

definition get_image_size :: "Panel \<Rightarrow> nat \<times> nat" where
  "get_image_size p = Panel_image_size p"

definition get_mask_panel :: "Panel \<Rightarrow> int4 list" where
  "get_mask_panel p = Panel_mask p"

definition set_mask :: "Panel \<Rightarrow> int4 list \<Rightarrow> Panel" where
  "set_mask p new_mask = p\<lparr>Panel_mask := new_mask\<rparr>"

definition add_mask :: "Panel \<Rightarrow> cint \<Rightarrow> cint \<Rightarrow> cint \<Rightarrow> cint \<Rightarrow> Panel" where
  "add_mask p f0 s0 f1 s1 = p\<lparr>Panel_mask := Panel_mask p @ [(f0, f1, s0, s1)]\<rparr>"

definition get_distance :: "Panel \<Rightarrow> real" where
  "get_distance p = vec3_dot (get_origin p) (get_normal p)"

definition millimeter_to_pixel :: "Panel \<Rightarrow> vec2 \<Rightarrow> vec2" where
  "millimeter_to_pixel p xy =
     (round_binary64 (fst xy / fst (Panel_pixel_size p)),
      round_binary64 (snd xy / snd (Panel_pixel_size p)))"

definition pixel_to_millimeter :: "Panel \<Rightarrow> vec2 \<Rightarrow> vec2" where
  "pixel_to_millimeter p xy =
     (round_binary64 (fst xy * fst (Panel_pixel_size p)),
      round_binary64 (snd xy * snd (Panel_pixel_size p)))"

text \<open>
  A coordinate \<open>x\<close> and a pixel size \<open>s\<close> for which neither map overflows or leaves the
  normal range of the doubles, where a rounding has its full precision: \<open>x\<close> is zero, or
  \<open>x\<close> and \<open>x * s\<close> lie between \<open>2 ^ -1021\<close> (\<open>2 ^ -1022\<close> for the product) and \<open>2 ^ 1023\<close> in
  magnitude.
\<close>

definition scales_within_range :: "real \<Rightarrow> real \<Rightarrow> bool" where
  "scales_within_range x s =
     (x = 0 \<or>
      (pow2 (- 1022) \<le> \<bar>x * s\<bar> \<and> \<bar>x * s\<bar> < pow2 1023 \<and>
       pow2 (- 1021) \<le> \<bar>x\<bar> \<and> \<bar>x\<bar> < pow2 1023))"





definition get_beam_centre_lab :: "Panel \<Rightarrow> vec3 \<Rightarrow> error + vec3" where
  "get_beam_centre_lab p s0 =
     (let s0dotd3 = vec3_dot s0 (get_normal p)
      in if s0dotd3 > 0 then Inr (vec3_div (vec3_scale s0 (get_distance p)) s0dotd3)
         else Inl Assertion_Failed)"




section \<open>Tiled images (format/image.h)\<close>

text \<open>
  Modelled from the spec: the tile-structured image (\<open>ImageTile\<close>, \<open>Image\<close>,
  \<open>ImageBuffer\<close>), whose header format/image.h is not among the sources. A tile is a 2D
  array: its accessor is the pair (rows, columns), its data the elements row by row, as
  many as rows times columns. An image is the sequence of its tiles and is empty when
  it has no tile. An image buffer holds a raw image of integer or of double samples; a
  default-constructed buffer holds none and, read as an image, has no tile.
\<close>

record 'a ImageTile =
  tile_accessor :: "nat \<times> nat"
  tile_data :: "'a list"

type_synonym 'a Image = "'a ImageTile list"

datatype ImageBuffer = Empty_Buffer | Int_Image "int Image" | Double_Image "real Image"

definition tile_size :: "('a, 'z) ImageTile_scheme \<Rightarrow> nat" where
  "tile_size t = fst (tile_accessor t) * snd (tile_accessor t)"

definition n_tiles :: "'a Image \<Rightarrow> nat" where
  "n_tiles img = length img"

definition empty_image :: "'a Image \<Rightarrow> bool" where
  "empty_image img = (img = [])"

definition as_double :: "ImageBuffer \<Rightarrow> real Image" where
  "as_double b =
     (case b of
        Empty_Buffer \<Rightarrow> []
      | Int_Image ts \<Rightarrow>
          map (\<lambda>t. \<lparr>tile_accessor = tile_accessor t, tile_data = map real_of_int (tile_data t)\<rparr>) ts
      | Double_Image ts \<Rightarrow> ts)"

text \<open>\<open>versa<double, c_grid<2> > data(grid, value)\<close>: an array filled with one value.\<close>

definition uniform_tile :: "nat \<Rightarrow> nat \<Rightarrow> real \<Rightarrow> real ImageTile" where
  "uniform_tile ysize xsize value =
     \<lparr>tile_accessor = (ysize, xsize), tile_data = replicate (ysize * xsize) value\<rparr>"


section \<open>External lookup and image set data (imageset.h)\<close>

text \<open>
  The fields keep the source's names without the trailing underscore, behind a prefix
  for their class: \<open>item_filename\<close> is \<open>ExternalLookupItem::filename_\<close>, \<open>isd_beams\<close> is
  \<open>ImageSetData::beams_\<close>, \<open>iset_indices\<close> is \<open>ImageSet::indices_\<close>, and so on.
\<close>

record 'a ExternalLookupItem =
  item_filename :: string
  item_data :: "'a Image"

record ExternalLookup =
  lookup_mask :: "bool ExternalLookupItem"
  lookup_gain :: "real ExternalLookupItem"
  lookup_pedestal :: "real ExternalLookupItem"

text \<open>
  Modelled from the spec: the detector, an ordered collection of panels addressed by
  index (\<open>detector.size()\<close>, \<open>detector[i]\<close>); its class is not among the sources.
\<close>

type_synonym Detector = "Panel list"

text \<open>
  The four model arrays of an \<open>ImageSetData\<close> are \<open>scitbx::af::shared\<close> arrays: copying
  such an array copies a handle, and all copies read and write the same elements. The
  arrays therefore live in a store, addressed by handle, one store per element type;
  an element is a \<open>boost::shared_ptr\<close>, \<open>None\<close> when null. Beam, goniometer and scan are
  value types from outside and stay type parameters \<open>'b\<close>, \<open>'g\<close>, \<open>'s\<close>.
\<close>

record ('b, 'g, 's) Store =
  beam_arrays :: "nat \<Rightarrow> 'b option list"
  detector_arrays :: "nat \<Rightarrow> Detector option list"
  goniometer_arrays :: "nat \<Rightarrow> 'g option list"
  scan_arrays :: "nat \<Rightarrow> 's option list"

text \<open>
  The reader behind an \<open>ImageSetData\<close> (a Python object in the source): its length and
  the raw image it reads at a physical index.
\<close>

record Reader =
  reader_len :: nat
  reader_read :: "nat \<Rightarrow> ImageBuffer"

text \<open>
  \<open>ImageSetData\<close>: the model arrays are handles into the store; the properties and the
  external lookup are plain members, copied with the object.
\<close>

record ImageSetData =
  isd_data :: Reader
  isd_beams :: nat
  isd_detectors :: nat
  isd_goniometers :: nat
  isd_scans :: nat
  isd_properties :: "string \<Rightarrow> string option"
  isd_external_lookup :: ExternalLookup

definition ImageSetData_size :: "ImageSetData \<Rightarrow> nat" where
  "ImageSetData_size d = reader_len (isd_data d)"

definition ImageSetData_get_data :: "ImageSetData \<Rightarrow> nat \<Rightarrow> ImageBuffer" where
  "ImageSetData_get_data d index = reader_read (isd_data d) index"

definition ImageSetData_get_beam ::
  "('b, 'g, 's) Store \<Rightarrow> ImageSetData \<Rightarrow> nat \<Rightarrow> error + 'b option" where
  "ImageSetData_get_beam h d index =
     (if index < length (beam_arrays h (isd_beams d))
      then Inr (beam_arrays h (isd_beams d) ! index) else Inl Assertion_Failed)"

definition ImageSetData_set_beam ::
  "ImageSetData \<Rightarrow> nat \<Rightarrow> 'b option \<Rightarrow> ('b, 'g, 's) Store \<Rightarrow> (error + unit) \<times> ('b, 'g, 's) Store" where
  "ImageSetData_set_beam d index beam h =
     (if index < length (beam_arrays h (isd_beams d))
      then (Inr (), h\<lparr>beam_arrays := (beam_arrays h)
              (isd_beams d := (beam_arrays h (isd_beams d))[index := beam])\<rparr>)
      else (Inl Assertion_Failed, h))"

definition ImageSetData_get_detector ::
  "('b, 'g, 's) Store \<Rightarrow> ImageSetData \<Rightarrow> nat \<Rightarrow> error + Detector option" where
  "ImageSetData_get_detector h d index =
     (if index < length (detector_arrays h (isd_detectors d))
      then Inr (detector_arrays h (isd_detectors d) ! index) else Inl Assertion_Failed)"

definition ImageSetData_set_detector ::
  "ImageSetData \<Rightarrow> nat \<Rightarrow> Detector option \<Rightarrow> ('b, 'g, 's) Store \<Rightarrow> (error + unit) \<times> ('b, 'g, 's) Store" where
  "ImageSetData_set_detector d index detector h =
     (if index < length (detector_arrays h (isd_detectors d))
      then (Inr (), h\<lparr>detector_arrays := (detector_arrays h)
              (isd_detectors d := (detector_arrays h (isd_detectors d))[index := detector])\<rparr>)
      else (Inl Assertion_Failed, h))"

definition ImageSetData_get_goniometer ::
  "('b, 'g, 's) Store \<Rightarrow> ImageSetData \<Rightarrow> nat \<Rightarrow> error + 'g option" where
  "ImageSetData_get_goniometer h d index =
     (if index < length (goniometer_arrays h (isd_goniometers d))
      then Inr (goniometer_arrays h (isd_goniometers d) ! index) else Inl Assertion_Failed)"

definition ImageSetData_set_goniometer ::
  "ImageSetData \<Rightarrow> nat \<Rightarrow> 'g option \<Rightarrow> ('b, 'g, 's) Store \<Rightarrow> (error + unit) \<times> ('b, 'g, 's) Store" where
  "ImageSetData_set_goniometer d index goniometer h =
     (if index < length (goniometer_arrays h (isd_goniometers d))
      then (Inr (), h\<lparr>goniometer_arrays := (goniometer_arrays h)
              (isd_goniometers d := (goniometer_arrays h (isd_goniometers d))[index := goniometer])\<rparr>)
      else (Inl Assertion_Failed, h))"

definition ImageSetData_get_scan ::
  "('b, 'g, 's) Store \<Rightarrow> ImageSetData \<Rightarrow> nat \<Rightarrow> error + 's option" where
  "ImageSetData_get_scan h d index =
     (if index < length (scan_arrays h (isd_scans d))
      then Inr (scan_arrays h (isd_scans d) ! index) else Inl Assertion_Failed)"

definition ImageSetData_set_scan ::
  "ImageSetData \<Rightarrow> nat \<Rightarrow> 's option \<Rightarrow> ('b, 'g, 's) Store \<Rightarrow> (error + unit) \<times> ('b, 'g, 's) Store" where
  "ImageSetData_set_scan d index scan h =
     (if index < length (scan_arrays h (isd_scans d))
      then (Inr (), h\<lparr>scan_arrays := (scan_arrays h)
              (isd_scans d := (scan_arrays h (isd_scans d))[index := scan])\<rparr>)
      else (Inl Assertion_Failed, h))"


section \<open>ImageSet (imageset.h)\<close>

text \<open>
  The cache of the last raw image read: the image and, as an \<open>int\<close>, the logical index it
  was read at. A fresh cache has a default-constructed image and the index -1.
\<close>

record DataCache =
  cache_image :: ImageBuffer
  cache_index :: int

definition DataCache_init :: DataCache where
  "DataCache_init = \<lparr>cache_image = Empty_Buffer, cache_index = - 1\<rparr>"

text \<open>
  A view holds its \<open>ImageSetData\<close> as a member by value (\<open>ImageSetData data_\<close>,
  initialised by copy), the list of physical indices it exposes, and the cache.
\<close>

record ImageSet =
  iset_data :: ImageSetData
  iset_indices :: "nat list"
  iset_data_cache :: DataCache

text \<open>\<open>scitbx::af::max\<close> of an array: it throws on an empty array.\<close>

definition af_max :: "nat list \<Rightarrow> error + nat" where
  "af_max xs = (case xs of [] \<Rightarrow> Inl Library_Exception | x # rest \<Rightarrow> Inr (fold max rest x))"

definition ImageSet_init :: "ImageSetData \<Rightarrow> ImageSet" where
  "ImageSet_init data =
     \<lparr>iset_data = data, iset_indices = [0..<ImageSetData_size data], iset_data_cache = DataCache_init\<rparr>"

definition ImageSet_init_indices :: "ImageSetData \<Rightarrow> nat list \<Rightarrow> error + ImageSet" where
  "ImageSet_init_indices data indices =
     (case af_max indices of
        Inl e \<Rightarrow> Inl e
      | Inr m \<Rightarrow>
          if m < ImageSetData_size data
          then Inr \<lparr>iset_data = data, iset_indices = indices, iset_data_cache = DataCache_init\<rparr>
          else Inl Assertion_Failed)"

definition size_view :: "'z ImageSet_scheme \<Rightarrow> nat" where
  "size_view v = length (iset_indices v)"

definition external_lookup :: "'z ImageSet_scheme \<Rightarrow> ExternalLookup" where
  "external_lookup v = isd_external_lookup (iset_data v)"

text \<open>
  \<open>external_lookup().gain().set_filename(..)\<close> and \<open>.set_data(..)\<close> write into the lookup
  inside the view's own \<open>data_\<close> member.
\<close>

definition set_gain_lookup :: "'z ImageSet_scheme \<Rightarrow> string \<Rightarrow> real Image \<Rightarrow> 'z ImageSet_scheme" where
  "set_gain_lookup v filename img =
     v\<lparr>iset_data := (iset_data v)\<lparr>isd_external_lookup :=
          (isd_external_lookup (iset_data v))\<lparr>lookup_gain :=
             \<lparr>item_filename = filename, item_data = img\<rparr>\<rparr>\<rparr>\<rparr>"

subsection \<open>The per-image model accessors of the base class\<close>

definition ImageSet_get_beam_for_image ::
  "('b, 'g, 's) Store \<Rightarrow> 'z ImageSet_scheme \<Rightarrow> nat \<Rightarrow> error + 'b option" where
  "ImageSet_get_beam_for_image h v index =
     (if index < length (iset_indices v)
      then ImageSetData_get_beam h (iset_data v) (iset_indices v ! index)
      else Inl Assertion_Failed)"

definition ImageSet_get_detector_for_image ::
  "('b, 'g, 's) Store \<Rightarrow> 'z ImageSet_scheme \<Rightarrow> nat \<Rightarrow> error + Detector option" where
  "ImageSet_get_detector_for_image h v index =
     (if index < length (iset_indices v)
      then ImageSetData_get_detector h (iset_data v) (iset_indices v ! index)
      else Inl Assertion_Failed)"

definition ImageSet_get_goniometer_for_image ::
  "('b, 'g, 's) Store \<Rightarrow> 'z ImageSet_scheme \<Rightarrow> nat \<Rightarrow> error + 'g option" where
  "ImageSet_get_goniometer_for_image h v index =
     (if index < length (iset_indices v)
      then ImageSetData_get_goniometer h (iset_data v) (iset_indices v ! index)
      else Inl Assertion_Failed)"

definition ImageSet_get_scan_for_image ::
  "('b, 'g, 's) Store \<Rightarrow> 'z ImageSet_scheme \<Rightarrow> nat \<Rightarrow> error + 's option" where
  "ImageSet_get_scan_for_image h v index =
     (if index < length (iset_indices v)
      then ImageSetData_get_scan h (iset_data v) (iset_indices v ! index)
      else Inl Assertion_Failed)"

definition ImageSet_set_beam_for_image ::
  "'z ImageSet_scheme \<Rightarrow> nat \<Rightarrow> 'b option \<Rightarrow> ('b, 'g, 's) Store \<Rightarrow> (error + unit) \<times> ('b, 'g, 's) Store" where
  "ImageSet_set_beam_for_image v index beam h =
     (if index < length (iset_indices v)
      then ImageSetData_set_beam (iset_data v) (iset_indices v ! index) beam h
      else (Inl Assertion_Failed, h))"

definition ImageSet_set_detector_for_image ::
  "'z ImageSet_scheme \<Rightarrow> nat \<Rightarrow> Detector option \<Rightarrow> ('b, 'g, 's) Store \<Rightarrow> (error + unit) \<times> ('b, 'g, 's) Store" where
  "ImageSet_set_detector_for_image v index detector h =
     (if index < length (iset_indices v)
      then ImageSetData_set_detector (iset_data v) (iset_indices v ! index) detector h
      else (Inl Assertion_Failed, h))"

definition ImageSet_set_goniometer_for_image ::
  "'z ImageSet_scheme \<Rightarrow> nat \<Rightarrow> 'g option \<Rightarrow> ('b, 'g, 's) Store \<Rightarrow> (error + unit) \<times> ('b, 'g, 's) Store" where
  "ImageSet_set_goniometer_for_image v index goniometer h =
     (if index < length (iset_indices v)
      then ImageSetData_set_goniometer (iset_data v) (iset_indices v ! index) goniometer h
      else (Inl Assertion_Failed, h))"

text \<open>
  The scan setter first checks the scan itself. \<open>get_num_images\<close> belongs to the scan
  type and is a parameter.
\<close>

definition ImageSet_set_scan_for_image ::
  "('s \<Rightarrow> nat) \<Rightarrow> 'z ImageSet_scheme \<Rightarrow> nat \<Rightarrow> 's option \<Rightarrow> ('b, 'g, 's) Store
     \<Rightarrow> (error + unit) \<times> ('b, 'g, 's) Store" where
  "ImageSet_set_scan_for_image get_num_images v index scan h =
     (if \<not> (case scan of None \<Rightarrow> True | Some s \<Rightarrow> get_num_images s = 1)
      then (Inl Assertion_Failed, h)
      else if index < length (iset_indices v)
      then ImageSetData_set_scan (iset_data v) (iset_indices v ! index) scan h
      else (Inl Assertion_Failed, h))"

subsection \<open>Raw data, gain, pedestal and corrected data\<close>

text \<open>
  \<open>get_raw_data\<close> compares the cached \<open>int\<close> index with the \<open>std::size_t\<close> index, which
  converts the \<open>int\<close>: the -1 of a fresh cache equals the index \<open>2 ^ 64 - 1\<close>. On a miss it
  reads \<open>indices_[index]\<close> without a bounds check (a read outside the array is undefined
  behaviour) and stores the index narrowed to \<open>int\<close>.
\<close>

definition get_raw_data ::
  "'z ImageSet_scheme \<Rightarrow> nat \<Rightarrow> (error + ImageBuffer) \<times> 'z ImageSet_scheme" where
  "get_raw_data v index =
     (if size_t_of_int (cache_index (iset_data_cache v)) = index
      then (Inr (cache_image (iset_data_cache v)), v)
      else if index < length (iset_indices v)
      then (let image = ImageSetData_get_data (iset_data v) (iset_indices v ! index)
            in (Inr image,
                v\<lparr>iset_data_cache :=
                    \<lparr>cache_image = image, cache_index = int_of_size_t index\<rparr>\<rparr>))
      else (Inl Undefined_Behaviour, v))"

text \<open>
  The first loop of \<open>get_gain\<close>: the gain of each panel in turn, stopping at the first one
  that is not positive. The result is the flag \<open>use_detector_gain\<close> and the vector
  \<open>gain\<close>, whose entries after a stop keep their initial 0.
\<close>

fun panel_gains :: "Panel list \<Rightarrow> bool \<times> real list" where
  "panel_gains [] = (True, [])"
| "panel_gains (p # ps) =
     (if get_gain_panel p \<le> 0 then (False, get_gain_panel p # replicate (length ps) 0)
      else (case panel_gains ps of (use, gs) \<Rightarrow> (use, get_gain_panel p # gs)))"

text \<open>The second loop: one uniform tile per panel, \<open>c_grid<2>(ysize, xsize)\<close>.\<close>

definition gain_map :: "Panel list \<Rightarrow> real list \<Rightarrow> real Image" where
  "gain_map detector gain =
     map (\<lambda>i. uniform_tile (snd (get_image_size (detector ! i)))
                           (fst (get_image_size (detector ! i))) (gain ! i))
       [0..<length detector]"

definition get_gain ::
  "('b, 'g, 's) Store \<Rightarrow> 'z ImageSet_scheme \<Rightarrow> nat \<Rightarrow> (error + real Image) \<times> 'z ImageSet_scheme" where
  "get_gain h v index =
     (if empty_image (item_data (lookup_gain (external_lookup v)))
      then (case ImageSet_get_detector_for_image h v index of
              Inl e \<Rightarrow> (Inl e, v)
            | Inr None \<Rightarrow> (Inl Undefined_Behaviour, v)
            | Inr (Some detector) \<Rightarrow>
                (case panel_gains detector of
                   (use_detector_gain, gain) \<Rightarrow>
                     (let v' = (if use_detector_gain
                                then set_gain_lookup v [] (gain_map detector gain) else v)
                      in (Inr (item_data (lookup_gain (external_lookup v'))), v'))))
      else (Inr (item_data (lookup_gain (external_lookup v))), v))"

definition get_pedestal :: "'z ImageSet_scheme \<Rightarrow> nat \<Rightarrow> real Image" where
  "get_pedestal v index = item_data (lookup_pedestal (external_lookup v))"

text \<open>
  The two element loops of \<open>get_corrected_data\<close>. Each runs \<open>j\<close> over the elements of the
  tile, and its body reads and writes element \<open>i\<close>, the number of the tile, not element
  \<open>j\<close>. An access at \<open>i\<close> outside the array is undefined behaviour.
\<close>

fun apply_pedestal :: "nat list \<Rightarrow> nat \<Rightarrow> real list \<Rightarrow> real list \<Rightarrow> error + real list" where
  "apply_pedestal [] i c p = Inr c"
| "apply_pedestal (j # js) i c p =
     (if i < length c \<and> i < length p then apply_pedestal js i (c[i := c ! i - p ! i]) p
      else Inl Undefined_Behaviour)"

fun apply_gain :: "nat list \<Rightarrow> nat \<Rightarrow> real list \<Rightarrow> real list \<Rightarrow> error + real list" where
  "apply_gain [] i c g = Inr c"
| "apply_gain (j # js) i c g =
     (if i < length c \<and> i < length g
      then (if g ! i > 0 then apply_gain js i (c[i := c ! i / g ! i]) g
            else Inl Assertion_Failed)
      else Inl Undefined_Behaviour)"

text \<open>The body of the loop over the tiles, for tile \<open>i\<close>.\<close>

definition correct_tile ::
  "nat \<Rightarrow> real ImageTile \<Rightarrow> real ImageTile \<Rightarrow> real ImageTile \<Rightarrow> error + real ImageTile" where
  "correct_tile i r g p =
     (if \<not> (tile_size g = 0 \<or> tile_accessor r = tile_accessor g) then Inl Assertion_Failed
      else if \<not> (tile_size p = 0 \<or> tile_accessor r = tile_accessor p) then Inl Assertion_Failed
      else
        (case (if tile_size p > 0
               then apply_pedestal [0..<tile_size r] i (tile_data r) (tile_data p)
               else Inr (tile_data r)) of
           Inl e \<Rightarrow> Inl e
         | Inr c1 \<Rightarrow>
             (case (if tile_size g > 0
                    then apply_gain [0..<tile_size r] i c1 (tile_data g)
                    else Inr c1) of
                Inl e \<Rightarrow> Inl e
              | Inr c2 \<Rightarrow> Inr \<lparr>tile_accessor = tile_accessor r, tile_data = c2\<rparr>)))"

fun correct_tiles ::
  "nat list \<Rightarrow> real Image \<Rightarrow> real Image \<Rightarrow> real Image \<Rightarrow> real Image \<Rightarrow> error + real Image" where
  "correct_tiles [] data gain pedestal result = Inr result"
| "correct_tiles (i # is) data gain pedestal result =
     (case correct_tile i (data ! i) (gain ! i) (pedestal ! i) of
        Inl e \<Rightarrow> Inl e
      | Inr c \<Rightarrow> correct_tiles is data gain pedestal (result @ [c]))"

definition get_corrected_data ::
  "('b, 'g, 's) Store \<Rightarrow> 'z ImageSet_scheme \<Rightarrow> nat \<Rightarrow> (error + real Image) \<times> 'z ImageSet_scheme" where
  "get_corrected_data h v index =
     (case get_raw_data v index of
        (Inl e, v1) \<Rightarrow> (Inl e, v1)
      | (Inr raw, v1) \<Rightarrow>
          (let data = as_double raw
           in case get_gain h v1 index of
                (Inl e, v2) \<Rightarrow> (Inl e, v2)
              | (Inr gain, v2) \<Rightarrow>
                  (let pedestal = get_pedestal v2 index
                   in if n_tiles data \<noteq> n_tiles gain then (Inl Assertion_Failed, v2)
                      else if n_tiles data \<noteq> n_tiles pedestal then (Inl Assertion_Failed, v2)
                      else (correct_tiles [0..<n_tiles data] data gain pedestal [], v2))))"


subsection \<open>Derived views of the base class\<close>

definition ImageSet_as_imageset :: "ImageSet \<Rightarrow> ImageSet" where
  "ImageSet_as_imageset v = v"

definition ImageSet_complete_set :: "'z ImageSet_scheme \<Rightarrow> ImageSet" where
  "ImageSet_complete_set v = ImageSet_init (iset_data v)"

text \<open>
  \<open>partial_set(first, last)\<close> takes \<open>last - first\<close> indices from \<open>&indices_[first]\<close> on,
  unchecked: a range that leaves the array is undefined behaviour.
\<close>

definition ImageSet_partial_set :: "'z ImageSet_scheme \<Rightarrow> nat \<Rightarrow> nat \<Rightarrow> error + ImageSet" where
  "ImageSet_partial_set v first_index last_index =
     (if \<not> last_index > first_index then Inl Assertion_Failed
      else if last_index \<le> length (iset_indices v)
      then ImageSet_init_indices (iset_data v)
             (take (last_index - first_index) (drop first_index (iset_indices v)))
      else Inl Undefined_Behaviour)"


section \<open>ImageGrid and ImageSweep (imageset.h)\<close>

record ImageGrid = ImageSet +
  grid_size :: "int \<times> int"

text \<open>
  The checks of both grid constructors. The grid size is an \<open>int2\<close>; the product of its
  two components is an \<open>int\<close> product, which wraps around, and is converted to
  \<open>std::size_t\<close> for the comparison with the size of the view.
\<close>

definition ImageGrid_of :: "ImageSet \<Rightarrow> int \<times> int \<Rightarrow> error + ImageGrid" where
  "ImageGrid_of base g =
     (if \<not> (fst g > 0 \<and> snd g > 0) then Inl Assertion_Failed
      else if size_t_of_int (cint_wrap (fst g * snd g)) \<noteq> size_view base
      then Inl Assertion_Failed
      else Inr \<lparr>iset_data = iset_data base, iset_indices = iset_indices base,
                iset_data_cache = iset_data_cache base, grid_size = g\<rparr>)"

definition ImageGrid_init :: "ImageSetData \<Rightarrow> int \<times> int \<Rightarrow> error + ImageGrid" where
  "ImageGrid_init data g = ImageGrid_of (ImageSet_init data) g"

definition ImageGrid_init_indices :: "ImageSetData \<Rightarrow> nat list \<Rightarrow> int \<times> int \<Rightarrow> error + ImageGrid" where
  "ImageGrid_init_indices data indices g =
     (case ImageSet_init_indices data indices of
        Inl e \<Rightarrow> Inl e
      | Inr base \<Rightarrow> ImageGrid_of base g)"

record ('b, 'g, 's) ImageSweep = ImageSet +
  sweep_beam :: "'b option"
  sweep_detector :: "Detector option"
  sweep_goniometer :: "'g option"
  sweep_scan :: "'s option"

text \<open>
  The loop of both sweep constructors: for every logical index \<open>i\<close> the base-class
  setters store the shared beam, detector and goniometer and the one-image scan
  \<open>scan[i]\<close>. \<open>get_num_images\<close> and the slicing \<open>scan[i]\<close> (here \<open>scan_at scan i\<close>) belong to
  the scan type and are parameters. A failing setter ends the loop and leaves the store as it then is.
\<close>

fun ImageSweep_set_models ::
  "('s \<Rightarrow> nat) \<Rightarrow> ('s \<Rightarrow> nat \<Rightarrow> 's) \<Rightarrow> 'z ImageSet_scheme \<Rightarrow>
   'b option \<Rightarrow> Detector option \<Rightarrow> 'g option \<Rightarrow> 's \<Rightarrow> nat list \<Rightarrow>
   ('b, 'g, 's) Store \<Rightarrow> (error + unit) \<times> ('b, 'g, 's) Store" where
  "ImageSweep_set_models get_num_images scan_at v beam detector goniometer scan [] h = (Inr (), h)"
| "ImageSweep_set_models get_num_images scan_at v beam detector goniometer scan (i # is) h =
     (case ImageSet_set_beam_for_image v i beam h of
        (Inl e, h1) \<Rightarrow> (Inl e, h1)
      | (Inr u1, h1) \<Rightarrow>
     (case ImageSet_set_detector_for_image v i detector h1 of
        (Inl e, h2) \<Rightarrow> (Inl e, h2)
      | (Inr u2, h2) \<Rightarrow>
     (case ImageSet_set_goniometer_for_image v i goniometer h2 of
        (Inl e, h3) \<Rightarrow> (Inl e, h3)
      | (Inr u3, h3) \<Rightarrow>
     (case ImageSet_set_scan_for_image get_num_images v i (Some (scan_at scan i)) h3 of
        (Inl e, h4) \<Rightarrow> (Inl e, h4)
      | (Inr u4, h4) \<Rightarrow>
          ImageSweep_set_models get_num_images scan_at v beam detector goniometer scan is h4))))"

definition ImageSweep_of ::
  "ImageSet \<Rightarrow> 'b \<Rightarrow> Detector \<Rightarrow> 'g \<Rightarrow> 's \<Rightarrow> ('b, 'g, 's) ImageSweep" where
  "ImageSweep_of base beam detector goniometer scan =
     \<lparr>iset_data = iset_data base, iset_indices = iset_indices base,
      iset_data_cache = iset_data_cache base,
      sweep_beam = Some beam, sweep_detector = Some detector,
      sweep_goniometer = Some goniometer, sweep_scan = Some scan\<rparr>"

definition ImageSweep_init ::
  "('s \<Rightarrow> nat) \<Rightarrow> ('s \<Rightarrow> nat \<Rightarrow> 's) \<Rightarrow> ImageSetData \<Rightarrow> 'b \<Rightarrow> Detector \<Rightarrow> 'g \<Rightarrow> 's \<Rightarrow>
   ('b, 'g, 's) Store \<Rightarrow> (error + ('b, 'g, 's) ImageSweep) \<times> ('b, 'g, 's) Store" where
  "ImageSweep_init get_num_images scan_at data beam detector goniometer scan h =
     (let base = ImageSet_init data
      in if ImageSetData_size data \<noteq> get_num_images scan then (Inl Assertion_Failed, h)
         else (case ImageSweep_set_models get_num_images scan_at base
                      (Some beam) (Some detector) (Some goniometer) scan
                      [0..<size_view base] h of
                 (Inl e, h') \<Rightarrow> (Inl e, h')
               | (Inr u, h') \<Rightarrow> (Inr (ImageSweep_of base beam detector goniometer scan), h')))"

text \<open>The check that the indices are sequential, for \<open>i\<close> from 1 on.\<close>

definition sequential :: "nat list \<Rightarrow> bool" where
  "sequential indices =
     list_all (\<lambda>i. indices ! i = indices ! (i - 1) + 1) [1..<length indices]"

definition ImageSweep_init_indices ::
  "('s \<Rightarrow> nat) \<Rightarrow> ('s \<Rightarrow> nat \<Rightarrow> 's) \<Rightarrow> ImageSetData \<Rightarrow> nat list \<Rightarrow> 'b \<Rightarrow> Detector \<Rightarrow> 'g \<Rightarrow> 's \<Rightarrow>
   ('b, 'g, 's) Store \<Rightarrow> (error + ('b, 'g, 's) ImageSweep) \<times> ('b, 'g, 's) Store" where
  "ImageSweep_init_indices get_num_images scan_at data indices beam detector goniometer scan h =
     (case ImageSet_init_indices data indices of
        Inl e \<Rightarrow> (Inl e, h)
      | Inr base \<Rightarrow>
          if length indices \<noteq> get_num_images scan then (Inl Assertion_Failed, h)
          else if \<not> sequential indices then (Inl Assertion_Failed, h)
          else (case ImageSweep_set_models get_num_images scan_at base
                       (Some beam) (Some detector) (Some goniometer) scan
                       [0..<size_view base] h of
                  (Inl e, h') \<Rightarrow> (Inl e, h')
                | (Inr u, h') \<Rightarrow> (Inr (ImageSweep_of base beam detector goniometer scan), h')))"

subsection \<open>The virtual member functions\<close>

text \<open>
  An object seen through a reference to the base class is a plain image set, a grid or
  a sweep; a call of a virtual member function runs the override of its class. The grid
  overrides \<open>as_imageset\<close>, \<open>complete_set\<close> and \<open>partial_set\<close>; the sweep overrides these and
  the four per-image setters.
\<close>

datatype ('b, 'g, 's) ImageSetObject =
    Plain ImageSet
  | Grid ImageGrid
  | Sweep "('b, 'g, 's) ImageSweep"

definition as_imageset :: "('b, 'g, 's) ImageSetObject \<Rightarrow> error + ImageSet" where
  "as_imageset obj =
     (case obj of
        Plain v \<Rightarrow> Inr (ImageSet_as_imageset v)
      | Grid g \<Rightarrow> ImageSet_init_indices (iset_data g) (iset_indices g)
      | Sweep w \<Rightarrow> ImageSet_init_indices (iset_data w) (iset_indices w))"

definition complete_set :: "('b, 'g, 's) ImageSetObject \<Rightarrow> error + ImageSet" where
  "complete_set obj =
     (case obj of
        Plain v \<Rightarrow> Inr (ImageSet_complete_set v)
      | Grid g \<Rightarrow> Inl (Fatal_Error ''Cannot get complete set from image grid'')
      | Sweep w \<Rightarrow> Inl (Fatal_Error ''Cannot get complete set from image sweep''))"

definition partial_set :: "('b, 'g, 's) ImageSetObject \<Rightarrow> nat \<Rightarrow> nat \<Rightarrow> error + ImageSet" where
  "partial_set obj first_index last_index =
     (case obj of
        Plain v \<Rightarrow> ImageSet_partial_set v first_index last_index
      | Grid g \<Rightarrow> Inl (Fatal_Error ''Cannot get partial set from image grid'')
      | Sweep w \<Rightarrow> Inl (Fatal_Error ''Cannot get partial set from image sweep''))"

definition set_beam_for_image ::
  "('b, 'g, 's) ImageSetObject \<Rightarrow> nat \<Rightarrow> 'b option \<Rightarrow> ('b, 'g, 's) Store
     \<Rightarrow> (error + unit) \<times> ('b, 'g, 's) Store" where
  "set_beam_for_image obj index beam h =
     (case obj of
        Plain v \<Rightarrow> ImageSet_set_beam_for_image v index beam h
      | Grid g \<Rightarrow> ImageSet_set_beam_for_image g index beam h
      | Sweep w \<Rightarrow> (Inl (Fatal_Error ''Cannot set per-image model in sweep''), h))"

definition set_detector_for_image ::
  "('b, 'g, 's) ImageSetObject \<Rightarrow> nat \<Rightarrow> Detector option \<Rightarrow> ('b, 'g, 's) Store
     \<Rightarrow> (error + unit) \<times> ('b, 'g, 's) Store" where
  "set_detector_for_image obj index detector h =
     (case obj of
        Plain v \<Rightarrow> ImageSet_set_detector_for_image v index detector h
      | Grid g \<Rightarrow> ImageSet_set_detector_for_image g index detector h
      | Sweep w \<Rightarrow> (Inl (Fatal_Error ''Cannot set per-image model in sweep''), h))"

definition set_goniometer_for_image ::
  "('b, 'g, 's) ImageSetObject \<Rightarrow> nat \<Rightarrow> 'g option \<Rightarrow> ('b, 'g, 's) Store
     \<Rightarrow> (error + unit) \<times> ('b, 'g, 's) Store" where
  "set_goniometer_for_image obj index goniometer h =
     (case obj of
        Plain v \<Rightarrow> ImageSet_set_goniometer_for_image v index goniometer h
      | Grid g \<Rightarrow> ImageSet_set_goniometer_for_image g index goniometer h
      | Sweep w \<Rightarrow> (Inl (Fatal_Error ''Cannot set per-image model in sweep''), h))"

definition set_scan_for_image ::
  "('s \<Rightarrow> nat) \<Rightarrow> ('b, 'g, 's) ImageSetObject \<Rightarrow> nat \<Rightarrow> 's option \<Rightarrow> ('b, 'g, 's) Store
     \<Rightarrow> (error + unit) \<times> ('b, 'g, 's) Store" where
  "set_scan_for_image get_num_images obj index scan h =
     (case obj of
        Plain v \<Rightarrow> ImageSet_set_scan_for_image get_num_images v index scan h
      | Grid g \<Rightarrow> ImageSet_set_scan_for_image get_num_images g index scan h
      | Sweep w \<Rightarrow> (Inl (Fatal_Error ''Cannot set per-image model in sweep''), h))"


section \<open>Stores that fit an ImageSetData, and the effect of the sweep loop\<close>

text \<open>
  The constructor of \<open>ImageSetData\<close> creates the four model arrays with one slot per
  image of the reader, and no setter changes the length of an array. A store fits an
  \<open>ImageSetData\<close> when the four arrays behind its handles have that length.
\<close>

definition ImageSetData_wf :: "('b, 'g, 's) Store \<Rightarrow> ImageSetData \<Rightarrow> bool" where
  "ImageSetData_wf h d =
     (length (beam_arrays h (isd_beams d)) = ImageSetData_size d \<and>
      length (detector_arrays h (isd_detectors d)) = ImageSetData_size d \<and>
      length (goniometer_arrays h (isd_goniometers d)) = ImageSetData_size d \<and>
      length (scan_arrays h (isd_scans d)) = ImageSetData_size d)"

text \<open>
  The store after one round of the sweep constructors' loop, written out: the four
  slots at the physical index \<open>indices ! i\<close> are overwritten.
\<close>

definition set_models_at ::
  "ImageSetData \<Rightarrow> 'b option \<Rightarrow> Detector option \<Rightarrow> 'g option \<Rightarrow> (nat \<Rightarrow> 's option) \<Rightarrow> nat list \<Rightarrow>
   nat \<Rightarrow> ('b, 'g, 's) Store \<Rightarrow> ('b, 'g, 's) Store" where
  "set_models_at d beam detector goniometer scans indices i h =
     h\<lparr>beam_arrays := (beam_arrays h)
          (isd_beams d := (beam_arrays h (isd_beams d))[indices ! i := beam]),
       detector_arrays := (detector_arrays h)
          (isd_detectors d := (detector_arrays h (isd_detectors d))[indices ! i := detector]),
       goniometer_arrays := (goniometer_arrays h)
          (isd_goniometers d := (goniometer_arrays h (isd_goniometers d))[indices ! i := goniometer]),
       scan_arrays := (scan_arrays h)
          (isd_scans d := (scan_arrays h (isd_scans d))[indices ! i := scans i])\<rparr>"

text \<open>
  The gain map that \<open>get_gain\<close> synthesises, written over the panels: one uniform tile
  per panel, of the panel's gain, with \<open>image_size[1]\<close> rows and \<open>image_size[0]\<close> columns.
\<close>

definition panel_gain_map :: "Panel list \<Rightarrow> real Image" where
  "panel_gain_map detector =
     map (\<lambda>p. uniform_tile (snd (get_image_size p)) (fst (get_image_size p)) (get_gain_panel p))
       detector"


section \<open>Concrete inputs\<close>

text \<open>
  The double nearest to 0.1, which is what the literal \<open>0.1\<close> stands for.
\<close>

definition double_0_1 :: real where
  "double_0_1 = 3602879701896397 / 36028797018963968"

text \<open>
  The panel of the spec's scenario: fast axis (1,0,0), slow axis (0,1,0), origin
  (0,0,100), pixels of 0.1 mm, 100 by 100 pixels; and the same panel with an image of
  \<open>2 ^ 32\<close> by \<open>2 ^ 32\<close> pixels.
\<close>

definition scenario_panel :: Panel where
  "scenario_panel =
     \<lparr>Panel_type = ''PAD'',
      Panel_d = ((1, 0, 0), (0, 1, 0), (0, 0, 100)),
      Panel_D = ((1, 0, 0), (0, 1, 0), (0, 0, 1 / 100)),
      Panel_pixel_size = (double_0_1, double_0_1), Panel_image_size = (100, 100),
      Panel_trusted_range = (0, 65535), Panel_mask = [], Panel_gain = 1\<rparr>"


text \<open>
  A collection of one image, whose raw data is one tile of one row and two columns
  holding 10 and 20, with an empty external lookup or with a gain and a pedestal.
\<close>

definition one_tile_reader :: Reader where
  "one_tile_reader =
     \<lparr>reader_len = 1,
      reader_read = (\<lambda>i. Int_Image [\<lparr>tile_accessor = (1, 2), tile_data = [10, 20]\<rparr>])\<rparr>"

definition empty_lookup :: ExternalLookup where
  "empty_lookup =
     \<lparr>lookup_mask = \<lparr>item_filename = [], item_data = []\<rparr>,
      lookup_gain = \<lparr>item_filename = [], item_data = []\<rparr>,
      lookup_pedestal = \<lparr>item_filename = [], item_data = []\<rparr>\<rparr>"

definition gain_pedestal_lookup :: ExternalLookup where
  "gain_pedestal_lookup =
     \<lparr>lookup_mask = \<lparr>item_filename = [], item_data = []\<rparr>,
      lookup_gain = \<lparr>item_filename = ''gain'',
         item_data = [\<lparr>tile_accessor = (1, 2), tile_data = [2, 4]\<rparr>]\<rparr>,
      lookup_pedestal = \<lparr>item_filename = ''pedestal'',
         item_data = [\<lparr>tile_accessor = (1, 2), tile_data = [1, 2]\<rparr>]\<rparr>\<rparr>"

definition one_image_data :: "ExternalLookup \<Rightarrow> ImageSetData" where
  "one_image_data l =
     \<lparr>isd_data = one_tile_reader, isd_beams = 0, isd_detectors = 0, isd_goniometers = 0,
      isd_scans = 0, isd_properties = (\<lambda>k. None), isd_external_lookup = l\<rparr>"

definition one_image_store :: "Detector \<Rightarrow> (nat, nat, nat \<times> nat) Store" where
  "one_image_store det =
     \<lparr>beam_arrays = (\<lambda>a. [None]), detector_arrays = (\<lambda>a. [Some det]),
      goniometer_arrays = (\<lambda>a. [None]), scan_arrays = (\<lambda>a. [None])\<rparr>"

text \<open>
  A collection of two images with all model slots null, and a scan type for it: a scan
  is the pair of its first image and its number of images, \<open>scan[i]\<close> the one-image scan
  at image \<open>i\<close>.
\<close>

definition two_image_data :: ImageSetData where
  "two_image_data =
     \<lparr>isd_data = \<lparr>reader_len = 2, reader_read = (\<lambda>i. Int_Image [])\<rparr>,
      isd_beams = 0, isd_detectors = 0, isd_goniometers = 0, isd_scans = 0,
      isd_properties = (\<lambda>k. None), isd_external_lookup = empty_lookup\<rparr>"

definition two_image_store :: "(nat, nat, nat \<times> nat) Store" where
  "two_image_store =
     \<lparr>beam_arrays = (\<lambda>a. [None, None]), detector_arrays = (\<lambda>a. [None, None]),
      goniometer_arrays = (\<lambda>a. [None, None]), scan_arrays = (\<lambda>a. [None, None])\<rparr>"

definition example_scan_at :: "nat \<times> nat \<Rightarrow> nat \<Rightarrow> nat \<times> nat" where
  "example_scan_at s i = (fst s + i, 1)"

definition two_image_grid :: ImageGrid where
  "two_image_grid =
     \<lparr>iset_data = two_image_data, iset_indices = [0, 1], iset_data_cache = DataCache_init,
      grid_size = (1, 2)\<rparr>"


section \<open>Properties of the rounding\<close>

lemma pow2_powr: "pow2 k = 2 powr (of_int k)"
  by (simp add: pow2_def powr_real_of_int inverse_eq_divide)

lemma pow2_pos: "0 < pow2 k"
  by (simp add: pow2_powr)

lemma round_half_even_error: "\<bar>of_int (round_half_even q) - q\<bar> \<le> 1 / 2"
  unfolding round_half_even_def Let_def by (auto; linarith)

lemma round_binary64_zero: "round_binary64 0 = 0"
  by (simp add: round_binary64_def)

lemma binary64_exponent_eq:
  assumes "pow2 e \<le> \<bar>y\<bar>" and "\<bar>y\<bar> < pow2 (e + 1)" and "- 1022 \<le> e"
  shows "binary64_exponent y = e"
proof -
  have pos: "0 < \<bar>y\<bar>" using assms(1) pow2_pos [of e] by linarith
  have "\<lfloor>log 2 \<bar>y\<bar>\<rfloor> = e"
    using assms(1,2) pos by (subst floor_log_eq_powr_iff) (simp_all add: pow2_powr)
  then show ?thesis using assms(3) by (simp add: binary64_exponent_def)
qed

lemma round_binary64_eval:
  assumes "pow2 e \<le> \<bar>y\<bar>" and "\<bar>y\<bar> < pow2 (e + 1)" and "- 1022 \<le> e"
  shows "round_binary64 y = of_int (round_half_even (y / pow2 (e - 52))) * pow2 (e - 52)"
proof -
  have "y \<noteq> 0" using assms(1) pow2_pos [of e] by auto
  then show ?thesis
    by (simp add: round_binary64_def binary64_exponent_eq [OF assms])
qed

text \<open>In the normal range a rounding changes a number by at most its \<open>2 ^ -53\<close>-th part.\<close>

lemma round_binary64_error:
  assumes "pow2 (- 1022) \<le> \<bar>y\<bar>"
  shows "\<bar>round_binary64 y - y\<bar> \<le> \<bar>y\<bar> / 2 ^ 53"
proof -
  have pos: "0 < \<bar>y\<bar>" using assms pow2_pos [of "- 1022"] by linarith
  define e where "e = \<lfloor>log 2 \<bar>y\<bar>\<rfloor>"
  have e: "pow2 e \<le> \<bar>y\<bar>" "\<bar>y\<bar> < pow2 (e + 1)"
    using floor_log_eq_powr_iff [of "\<bar>y\<bar>" 2 e] pos by (simp_all add: e_def pow2_powr)
  have "pow2 (- 1022) < pow2 (e + 1)" using assms e(2) by linarith
  then have "- 1022 < e + 1" by (simp add: pow2_powr)
  then have ge: "- 1022 \<le> e" by simp
  define u where "u = pow2 (e - 52)"
  have u: "0 < u" by (simp add: u_def pow2_pos)
  have fl: "round_binary64 y = of_int (round_half_even (y / u)) * u"
    unfolding u_def by (rule round_binary64_eval [OF e ge])
  have "round_binary64 y - y = (of_int (round_half_even (y / u)) - y / u) * u"
    using u by (simp add: fl left_diff_distrib)
  then have "\<bar>round_binary64 y - y\<bar> = \<bar>of_int (round_half_even (y / u)) - y / u\<bar> * u"
    using u by (simp add: abs_mult)
  also have "\<dots> \<le> (1 / 2) * u"
    using round_half_even_error [of "y / u"] u by (intro mult_right_mono) simp_all
  also have "\<dots> = pow2 e / 2 ^ 53"
    by (simp add: u_def pow2_powr powr_diff)
  also have "\<dots> \<le> \<bar>y\<bar> / 2 ^ 53"
    using e(1) by (simp add: divide_right_mono)
  finally show ?thesis .
qed

lemma double_0_1_nearest: "round_binary64 (1 / 10) = double_0_1"
  by (subst round_binary64_eval [where e = "- 4"])
     (simp_all add: pow2_def round_half_even_def double_0_1_def)

lemma three_times_0_1:
  "round_binary64 (3 * double_0_1) = 5404319552844596 / 18014398509481984"
  by (subst round_binary64_eval [where e = "- 2"])
     (simp_all add: pow2_def round_half_even_def double_0_1_def)

lemma three_times_0_1_by_0_1:
  "round_binary64 ((5404319552844596 / 18014398509481984) / double_0_1)
     = 6755399441055745 / 2251799813685248"
  by (subst round_binary64_eval [where e = 1])
     (simp_all add: pow2_def round_half_even_def double_0_1_def)


section \<open>Properties of Panel\<close>

lemma scenario_panel_constructed:
  "Panel_init ''PAD'' (1, 0, 0) (0, 1, 0) (0, 0, 100) (double_0_1, double_0_1) (100, 100)
     (0, 65535) 1
     = Inr scenario_panel"
  by (simp add: Panel_init_def create_d_matrix_def vec3_normalize_def vec3_length_def
      mat3_inverse_def scenario_panel_def)

text \<open>
  C10. \<open>add_mask f0 s0 f1 s1\<close> appends one region to the mask list, and the stored region
  has its components in the order (f0, f1, s0, s1): the second and third arguments
  change places. \<open>get_mask\<close> afterwards returns the old list followed by that region.
\<close>

theorem add_mask_component_order:
  "get_mask_panel (add_mask p f0 s0 f1 s1) = get_mask_panel p @ [(f0, f1, s0, s1)]"
  by (simp add: get_mask_panel_def add_mask_def)

subsection \<open>The pixel and millimetre maps\<close>

lemma round_trip_component_error:
  assumes s: "0 < s" and xs: "pow2 (- 1022) \<le> \<bar>x * s\<bar>" and x: "pow2 (- 1021) \<le> \<bar>x\<bar>"
  shows "\<bar>round_binary64 (round_binary64 (x * s) / s) - x\<bar> \<le> \<bar>x\<bar> * (1 / 2 ^ 52 + 1 / 2 ^ 106)"
proof -
  define a where "a = round_binary64 (x * s)"
  have e1: "\<bar>a - x * s\<bar> \<le> \<bar>x * s\<bar> / 2 ^ 53"
    unfolding a_def by (rule round_binary64_error [OF xs])
  have s0: "0 \<le> s" using s by simp
  have e2: "\<bar>a - x * s\<bar> / s \<le> (\<bar>x * s\<bar> / 2 ^ 53) / s"
    by (rule divide_right_mono [OF e1 s0])
  have "a / s - x = (a - x * s) / s"
    using s by (simp add: field_simps)
  then have "\<bar>a / s - x\<bar> = \<bar>a - x * s\<bar> / \<bar>s\<bar>"
    by (simp only: abs_divide)
  then have e3: "\<bar>a / s - x\<bar> = \<bar>a - x * s\<bar> / s"
    using s by simp
  have e4: "(\<bar>x * s\<bar> / 2 ^ 53) / s = \<bar>x\<bar> / 2 ^ 53"
    using s by (simp add: abs_mult)
  note e3
  also note e2
  also note e4
  finally have d1: "\<bar>a / s - x\<bar> \<le> \<bar>x\<bar> / 2 ^ 53" .
  have up: "\<bar>a / s\<bar> \<le> \<bar>x\<bar> + \<bar>x\<bar> / 2 ^ 53" using d1 by linarith
  have lo: "\<bar>x\<bar> - \<bar>x\<bar> / 2 ^ 53 \<le> \<bar>a / s\<bar>" using d1 by linarith
  have "pow2 (- 1022) = pow2 (- 1021) / 2" by (simp add: pow2_def)
  also have "\<dots> \<le> \<bar>x\<bar> / 2" using x by simp
  also have "\<dots> \<le> \<bar>x\<bar> - \<bar>x\<bar> / 2 ^ 53" by (simp add: field_simps)
  finally have "pow2 (- 1022) \<le> \<bar>a / s\<bar>" using lo by linarith
  then have "\<bar>round_binary64 (a / s) - a / s\<bar> \<le> \<bar>a / s\<bar> / 2 ^ 53"
    by (rule round_binary64_error)
  also have "\<dots> \<le> (\<bar>x\<bar> + \<bar>x\<bar> / 2 ^ 53) / 2 ^ 53"
    by (rule divide_right_mono [OF up]) simp
  finally have d2: "\<bar>round_binary64 (a / s) - a / s\<bar> \<le> (\<bar>x\<bar> + \<bar>x\<bar> / 2 ^ 53) / 2 ^ 53" .
  have "\<bar>round_binary64 (a / s) - x\<bar> \<le> \<bar>round_binary64 (a / s) - a / s\<bar> + \<bar>a / s - x\<bar>"
    by linarith
  also have "\<dots> \<le> (\<bar>x\<bar> + \<bar>x\<bar> / 2 ^ 53) / 2 ^ 53 + \<bar>x\<bar> / 2 ^ 53"
    using d1 d2 by linarith
  also have "\<dots> = \<bar>x\<bar> * (1 / 2 ^ 52 + 1 / 2 ^ 106)"
    by (simp add: field_simps)
  finally show ?thesis by (simp add: a_def)
qed


lemma round_trip_component:
  assumes "0 < s" and "scales_within_range x s"
  shows "\<bar>round_binary64 (round_binary64 (x * s) / s) - x\<bar> \<le> \<bar>x\<bar> * (1 / 2 ^ 52 + 1 / 2 ^ 106)"
proof (cases "x = 0")
  case True
  then show ?thesis by (simp add: round_binary64_zero)
next
  case False
  then show ?thesis
    using assms by (intro round_trip_component_error) (simp_all add: scales_within_range_def)
qed

text \<open>
  C7, as amended. For a panel with both pixel sizes positive and a point each of whose
  coordinates is within range for its pixel size, \<open>millimeter_to_pixel\<close> of
  \<open>pixel_to_millimeter\<close> of the point is the point up to the two roundings: each
  coordinate differs from the original by at most its \<open>(2 ^ -52 + 2 ^ -106)\<close>-th part, and
  a coordinate 0 comes back as 0.
\<close>

theorem pixel_round_trip_error:
  assumes "0 < fst (Panel_pixel_size p)" and "0 < snd (Panel_pixel_size p)"
    and "scales_within_range (fst xy) (fst (Panel_pixel_size p))"
    and "scales_within_range (snd xy) (snd (Panel_pixel_size p))"
  shows "\<bar>fst (millimeter_to_pixel p (pixel_to_millimeter p xy)) - fst xy\<bar>
           \<le> \<bar>fst xy\<bar> * (1 / 2 ^ 52 + 1 / 2 ^ 106) \<and>
         \<bar>snd (millimeter_to_pixel p (pixel_to_millimeter p xy)) - snd xy\<bar>
           \<le> \<bar>snd xy\<bar> * (1 / 2 ^ 52 + 1 / 2 ^ 106)"
  using round_trip_component [OF assms(1,3)] round_trip_component [OF assms(2,4)]
  by (simp add: millimeter_to_pixel_def pixel_to_millimeter_def)

lemma scenario_pixel_size: "Panel_pixel_size scenario_panel = (double_0_1, double_0_1)"
  by (simp add: scenario_panel_def)

lemma double_0_1_pos: "0 < double_0_1"
  by (simp add: double_0_1_def)

lemma three_within_range: "scales_within_range 3 double_0_1"
  by (simp add: scales_within_range_def pow2_def double_0_1_def)

theorem pixel_round_trip_error_witness:
  "\<bar>fst (millimeter_to_pixel scenario_panel (pixel_to_millimeter scenario_panel (3, 0))) - 3\<bar>
     \<le> 3 * (1 / 2 ^ 52 + 1 / 2 ^ 106) \<and>
   snd (millimeter_to_pixel scenario_panel (pixel_to_millimeter scenario_panel (3, 0))) = 0"
  using pixel_round_trip_error [of scenario_panel "(3, 0)"] three_within_range double_0_1_pos
  by (simp add: scenario_pixel_size scales_within_range_def)

text \<open>
  C7, the claim as stated, at a concrete input: with pixels of 0.1 mm the point (3, 3)
  becomes (0.30000000000000004, 0.30000000000000004) in millimetres and comes back as
  (3.0000000000000004, 3.0000000000000004), which is \<open>3 + 2 ^ -51\<close> in each coordinate.
\<close>

theorem pixel_round_trip_inexact:
  "0 < fst (Panel_pixel_size scenario_panel) \<and> 0 < snd (Panel_pixel_size scenario_panel) \<and>
   millimeter_to_pixel scenario_panel (pixel_to_millimeter scenario_panel (3, 3))
     = (6755399441055745 / 2251799813685248, 6755399441055745 / 2251799813685248) \<and>
   millimeter_to_pixel scenario_panel (pixel_to_millimeter scenario_panel (3, 3)) \<noteq> (3, 3)"
proof -
  have m: "pixel_to_millimeter scenario_panel (3, 3)
      = (5404319552844596 / 18014398509481984, 5404319552844596 / 18014398509481984)"
    by (simp only: pixel_to_millimeter_def scenario_pixel_size fst_conv snd_conv three_times_0_1)
  have q: "millimeter_to_pixel scenario_panel
        (5404319552844596 / 18014398509481984, 5404319552844596 / 18014398509481984)
      = (6755399441055745 / 2251799813685248, 6755399441055745 / 2251799813685248)"
    by (simp only: millimeter_to_pixel_def scenario_pixel_size fst_conv snd_conv
        three_times_0_1_by_0_1)
  show ?thesis
    unfolding m q using double_0_1_pos by (simp add: scenario_pixel_size)
qed

text \<open>
  The round trip is exact for a point that is made of doubles and whose products with
  the pixel sizes are doubles too, as they are when the pixel sizes are powers of two.
\<close>

lemma pixel_round_trip_exact:
  assumes "fst (Panel_pixel_size p) \<noteq> 0" and "snd (Panel_pixel_size p) \<noteq> 0"
    and "round_binary64 (fst xy * fst (Panel_pixel_size p)) = fst xy * fst (Panel_pixel_size p)"
    and "round_binary64 (snd xy * snd (Panel_pixel_size p)) = snd xy * snd (Panel_pixel_size p)"
    and "round_binary64 (fst xy) = fst xy" and "round_binary64 (snd xy) = snd xy"
  shows "millimeter_to_pixel p (pixel_to_millimeter p xy) = xy"
  using assms by (simp add: millimeter_to_pixel_def pixel_to_millimeter_def prod_eq_iff)

subsection \<open>The resolution estimators\<close>





















lemma scenario_beam_centre_lab_back:
  "get_beam_centre_lab scenario_panel (0, 0, - 1) = Inl Assertion_Failed"
  by (simp add: get_beam_centre_lab_def get_normal_def get_distance_def get_origin_def
      get_fast_axis_def get_slow_axis_def scenario_panel_def)














section \<open>Properties of the specialised views\<close>

text \<open>
  C6. On an image grid \<open>complete_set\<close> and \<open>partial_set\<close> fail with their fatal error
  whatever the arguments; on an image sweep \<open>complete_set\<close>, \<open>partial_set\<close> and the four
  per-image setters do. The failing setters hand back the store of the model arrays
  exactly as they received it.
\<close>

theorem specialised_views_refuse:
  "complete_set (Grid g) = Inl (Fatal_Error ''Cannot get complete set from image grid'') \<and>
   partial_set (Grid g) first_index last_index
     = Inl (Fatal_Error ''Cannot get partial set from image grid'') \<and>
   complete_set (Sweep w) = Inl (Fatal_Error ''Cannot get complete set from image sweep'') \<and>
   partial_set (Sweep w) first_index last_index
     = Inl (Fatal_Error ''Cannot get partial set from image sweep'') \<and>
   set_beam_for_image (Sweep w) index beam h
     = (Inl (Fatal_Error ''Cannot set per-image model in sweep''), h) \<and>
   set_detector_for_image (Sweep w) index detector h
     = (Inl (Fatal_Error ''Cannot set per-image model in sweep''), h) \<and>
   set_goniometer_for_image (Sweep w) index goniometer h
     = (Inl (Fatal_Error ''Cannot set per-image model in sweep''), h) \<and>
   set_scan_for_image get_num_images (Sweep w) index scan h
     = (Inl (Fatal_Error ''Cannot set per-image model in sweep''), h)"
  by (simp add: complete_set_def partial_set_def set_beam_for_image_def
      set_detector_for_image_def set_goniometer_for_image_def set_scan_for_image_def)

text \<open>
  C8. The per-image scan setter of the base class, which plain image sets and grids
  use, fails its first assertion when it is given a scan whose number of images is not
  1, and leaves the store as it was. A null scan, or a scan of exactly one image, is
  stored when the index is a valid one, and is read back at that index.
\<close>

theorem set_scan_for_image_single_image:
  "(get_num_images s \<noteq> 1 \<longrightarrow>
      set_scan_for_image get_num_images (Plain v) index (Some s) h = (Inl Assertion_Failed, h) \<and>
      set_scan_for_image get_num_images (Grid g) index (Some s) h = (Inl Assertion_Failed, h)) \<and>
   ((scan = None \<or> (\<exists>s1. scan = Some s1 \<and> get_num_images s1 = 1)) \<and>
    index < length (iset_indices v) \<and>
    iset_indices v ! index < length (scan_arrays h (isd_scans (iset_data v))) \<longrightarrow>
      fst (set_scan_for_image get_num_images (Plain v) index scan h) = Inr () \<and>
      ImageSet_get_scan_for_image (snd (set_scan_for_image get_num_images (Plain v) index scan h))
        v index = Inr scan)"
  by (auto simp: set_scan_for_image_def ImageSet_set_scan_for_image_def ImageSetData_set_scan_def
      ImageSet_get_scan_for_image_def ImageSetData_get_scan_def split: option.splits)

lemma two_image_view_indices: "iset_indices (ImageSet_init two_image_data) = [0, 1]"
  by (simp add: ImageSet_init_def ImageSetData_size_def two_image_data_def upt_conv_Cons)

lemma two_image_view_data: "iset_data (ImageSet_init two_image_data) = two_image_data"
  by (simp add: ImageSet_init_def)

lemma two_image_scans: "scan_arrays two_image_store a = [None, None]"
  by (simp add: two_image_store_def)

text \<open>
  The product of the grid size wraps around: 6 times 715827883 is \<open>2 ^ 32 + 2\<close>, which is 2
  as an \<open>int\<close>, the size of a view of two images.
\<close>

lemma wrapped_grid_constructed:
  "ImageGrid_init two_image_data (6, 715827883)
     = Inr \<lparr>iset_data = two_image_data, iset_indices = [0, 1],
            iset_data_cache = DataCache_init, grid_size = (6, 715827883)\<rparr>"
  using two_image_view_indices two_image_view_data
  by (simp add: ImageGrid_init_def ImageGrid_of_def size_view_def
      ImageSet_init_def size_t_of_int_def cint_wrap_def)

lemma two_image_grid_constructed: "ImageGrid_init two_image_data (1, 2) = Inr two_image_grid"
  using two_image_view_indices two_image_view_data
  by (simp add: ImageGrid_init_def ImageGrid_of_def size_view_def two_image_grid_def
      ImageSet_init_def size_t_of_int_def cint_wrap_def)

theorem set_scan_for_image_single_image_witness:
  "set_scan_for_image snd (Plain (ImageSet_init two_image_data)) 1 (Some (0, 3)) two_image_store
     = (Inl Assertion_Failed, two_image_store) \<and>
   set_scan_for_image snd (Grid two_image_grid) 1 (Some (0, 3)) two_image_store
     = (Inl Assertion_Failed, two_image_store) \<and>
   fst (set_scan_for_image snd (Plain (ImageSet_init two_image_data)) 1 (Some (5, 1))
          two_image_store) = Inr () \<and>
   ImageSet_get_scan_for_image
     (snd (set_scan_for_image snd (Plain (ImageSet_init two_image_data)) 1 (Some (5, 1))
             two_image_store))
     (ImageSet_init two_image_data) 1 = Inr (Some (5, 1))"
  using set_scan_for_image_single_image
          [of snd "(0, 3)" "ImageSet_init two_image_data" 1 two_image_store two_image_grid
              "Some (5, 1)"]
  by (simp add: two_image_view_indices two_image_view_data two_image_scans)


section \<open>Properties of the shared image set data\<close>

lemma ImageSet_init_data: "iset_data (ImageSet_init d) = d"
  by (simp add: ImageSet_init_def)

lemma ImageSet_init_indices_data: "ImageSet_init_indices d idx = Inr v \<Longrightarrow> iset_data v = d"
  by (auto simp: ImageSet_init_indices_def split: sum.splits if_splits)

text \<open>
  Two views share a model array as soon as their \<open>ImageSetData\<close> hold the same handle for
  it, whatever has happened to the other members of the two copies.
\<close>

lemma beam_slot_shared:
  "isd_beams (iset_data v1) = isd_beams (iset_data v2) \<Longrightarrow> j < length (iset_indices v2) \<Longrightarrow>
   iset_indices v2 ! j = iset_indices v1 ! i \<Longrightarrow>
   ImageSet_set_beam_for_image v1 i beam h = (Inr (), h') \<Longrightarrow>
   ImageSet_get_beam_for_image h' v2 j = Inr beam"
  by (auto simp: ImageSet_set_beam_for_image_def ImageSetData_set_beam_def
      ImageSet_get_beam_for_image_def ImageSetData_get_beam_def split: if_splits)

lemma detector_slot_shared:
  "isd_detectors (iset_data v1) = isd_detectors (iset_data v2) \<Longrightarrow> j < length (iset_indices v2) \<Longrightarrow>
   iset_indices v2 ! j = iset_indices v1 ! i \<Longrightarrow>
   ImageSet_set_detector_for_image v1 i detector h = (Inr (), h') \<Longrightarrow>
   ImageSet_get_detector_for_image h' v2 j = Inr detector"
  by (auto simp: ImageSet_set_detector_for_image_def ImageSetData_set_detector_def
      ImageSet_get_detector_for_image_def ImageSetData_get_detector_def split: if_splits)

lemma goniometer_slot_shared:
  "isd_goniometers (iset_data v1) = isd_goniometers (iset_data v2) \<Longrightarrow> j < length (iset_indices v2) \<Longrightarrow>
   iset_indices v2 ! j = iset_indices v1 ! i \<Longrightarrow>
   ImageSet_set_goniometer_for_image v1 i goniometer h = (Inr (), h') \<Longrightarrow>
   ImageSet_get_goniometer_for_image h' v2 j = Inr goniometer"
  by (auto simp: ImageSet_set_goniometer_for_image_def ImageSetData_set_goniometer_def
      ImageSet_get_goniometer_for_image_def ImageSetData_get_goniometer_def split: if_splits)

lemma scan_slot_shared:
  "isd_scans (iset_data v1) = isd_scans (iset_data v2) \<Longrightarrow> j < length (iset_indices v2) \<Longrightarrow>
   iset_indices v2 ! j = iset_indices v1 ! i \<Longrightarrow>
   ImageSet_set_scan_for_image get_num_images v1 i scan h = (Inr (), h') \<Longrightarrow>
   ImageSet_get_scan_for_image h' v2 j = Inr scan"
  by (auto simp: ImageSet_set_scan_for_image_def ImageSetData_set_scan_def
      ImageSet_get_scan_for_image_def ImageSetData_get_scan_def split: if_splits)

text \<open>
  C2, as amended. Two views whose \<open>data_\<close> members are copies of the same
  \<open>ImageSetData\<close> share the four model arrays: a beam, detector, goniometer or scan stored
  through one view at a logical index is what the other view reads at every logical
  index of its own that stands for the same physical image. (The external lookup is a
  member of each view's own copy and is not shared; see the next theorem.)
\<close>

theorem model_slots_shared_between_views:
  assumes "iset_data v1 = d" and "iset_data v2 = d"
    and "j < length (iset_indices v2)"
    and "iset_indices v2 ! j = iset_indices v1 ! i"
  shows "(ImageSet_set_beam_for_image v1 i beam h = (Inr (), h1)
            \<longrightarrow> ImageSet_get_beam_for_image h1 v2 j = Inr beam) \<and>
         (ImageSet_set_detector_for_image v1 i detector h = (Inr (), h2)
            \<longrightarrow> ImageSet_get_detector_for_image h2 v2 j = Inr detector) \<and>
         (ImageSet_set_goniometer_for_image v1 i goniometer h = (Inr (), h3)
            \<longrightarrow> ImageSet_get_goniometer_for_image h3 v2 j = Inr goniometer) \<and>
         (ImageSet_set_scan_for_image get_num_images v1 i scan h = (Inr (), h4)
            \<longrightarrow> ImageSet_get_scan_for_image h4 v2 j = Inr scan)"
proof -
  have same: "iset_data v1 = iset_data v2"
    using assms(1,2) by simp
  have b: "isd_beams (iset_data v1) = isd_beams (iset_data v2)"
    and d: "isd_detectors (iset_data v1) = isd_detectors (iset_data v2)"
    and g: "isd_goniometers (iset_data v1) = isd_goniometers (iset_data v2)"
    and s: "isd_scans (iset_data v1) = isd_scans (iset_data v2)"
    using same by simp_all
  show ?thesis
    using beam_slot_shared [OF b assms(3,4)] detector_slot_shared [OF d assms(3,4)]
      goniometer_slot_shared [OF g assms(3,4)] scan_slot_shared [OF s assms(3,4)]
    by blast
qed

text \<open>
  A view of both images and a view of the second image only, built from the same
  \<open>ImageSetData\<close>: what is stored through the first at index 1 is read through the second
  at index 0.
\<close>

lemma second_image_view:
  "ImageSet_init_indices two_image_data [1]
     = Inr \<lparr>iset_data = two_image_data, iset_indices = [1], iset_data_cache = DataCache_init\<rparr>"
  by (simp add: ImageSet_init_indices_def af_max_def ImageSetData_size_def two_image_data_def)

theorem model_slots_shared_between_views_witness:
  "ImageSet_get_beam_for_image
     (snd (ImageSet_set_beam_for_image (ImageSet_init two_image_data) 1 (Some 7) two_image_store))
     \<lparr>iset_data = two_image_data, iset_indices = [1], iset_data_cache = DataCache_init\<rparr> 0 = Inr (Some 7) \<and>
   ImageSet_get_detector_for_image
     (snd (ImageSet_set_detector_for_image (ImageSet_init two_image_data) 1 (Some [scenario_panel])
             two_image_store))
     \<lparr>iset_data = two_image_data, iset_indices = [1], iset_data_cache = DataCache_init\<rparr> 0
       = Inr (Some [scenario_panel]) \<and>
   ImageSet_get_goniometer_for_image
     (snd (ImageSet_set_goniometer_for_image (ImageSet_init two_image_data) 1 (Some 9)
             two_image_store))
     \<lparr>iset_data = two_image_data, iset_indices = [1], iset_data_cache = DataCache_init\<rparr> 0 = Inr (Some 9) \<and>
   ImageSet_get_scan_for_image
     (snd (ImageSet_set_scan_for_image snd (ImageSet_init two_image_data) 1 (Some (5, 1))
             two_image_store))
     \<lparr>iset_data = two_image_data, iset_indices = [1], iset_data_cache = DataCache_init\<rparr> 0
       = Inr (Some (5, 1))"
proof -
  have b: "fst (ImageSet_set_beam_for_image (ImageSet_init two_image_data) 1 (Some 7)
                  two_image_store) = Inr ()"
    by (simp add: ImageSet_set_beam_for_image_def ImageSetData_set_beam_def
        two_image_view_indices two_image_view_data two_image_store_def)
  have d: "fst (ImageSet_set_detector_for_image (ImageSet_init two_image_data) 1
                  (Some [scenario_panel]) two_image_store) = Inr ()"
    by (simp add: ImageSet_set_detector_for_image_def ImageSetData_set_detector_def
        two_image_view_indices two_image_view_data two_image_store_def)
  have g: "fst (ImageSet_set_goniometer_for_image (ImageSet_init two_image_data) 1 (Some 9)
                  two_image_store) = Inr ()"
    by (simp add: ImageSet_set_goniometer_for_image_def ImageSetData_set_goniometer_def
        two_image_view_indices two_image_view_data two_image_store_def)
  have s: "fst (ImageSet_set_scan_for_image snd (ImageSet_init two_image_data) 1 (Some (5, 1))
                  two_image_store) = Inr ()"
    by (simp add: ImageSet_set_scan_for_image_def ImageSetData_set_scan_def
        two_image_view_indices two_image_view_data two_image_store_def)
  show ?thesis
    using model_slots_shared_between_views
      [of "ImageSet_init two_image_data" two_image_data
          "\<lparr>iset_data = two_image_data, iset_indices = [1], iset_data_cache = DataCache_init\<rparr>" 0 1
          "Some 7" two_image_store
          "snd (ImageSet_set_beam_for_image (ImageSet_init two_image_data) 1 (Some 7)
                  two_image_store)"
          "Some [scenario_panel]"
          "snd (ImageSet_set_detector_for_image (ImageSet_init two_image_data) 1
                  (Some [scenario_panel]) two_image_store)"
          "Some 9"
          "snd (ImageSet_set_goniometer_for_image (ImageSet_init two_image_data) 1 (Some 9)
                  two_image_store)"
          snd "Some (5, 1)"
          "snd (ImageSet_set_scan_for_image snd (ImageSet_init two_image_data) 1 (Some (5, 1))
                  two_image_store)"]
      b d g s
    by (simp add: two_image_view_indices two_image_view_data prod_eq_iff)
qed

lemma empty_lookup_view_gain:
  "item_data (lookup_gain (external_lookup (ImageSet_init (one_image_data empty_lookup)))) = []"
  by (simp add: external_lookup_def ImageSet_init_def one_image_data_def empty_lookup_def)

lemma empty_lookup_view_gain_empty:
  "empty_image (item_data (lookup_gain (external_lookup
     (ImageSet_init (one_image_data empty_lookup)))))"
  by (simp add: empty_image_def empty_lookup_view_gain)

lemma one_image_view_detector:
  "ImageSet_get_detector_for_image (one_image_store det)
     (ImageSet_init (one_image_data l)) 0 = Inr (Some det)"
  by (simp add: ImageSet_get_detector_for_image_def ImageSetData_get_detector_def
      ImageSet_init_def one_image_data_def ImageSetData_size_def one_tile_reader_def
      one_image_store_def)

lemma external_lookup_set_gain_lookup:
  "item_data (lookup_gain (external_lookup (set_gain_lookup v f img))) = img"
  by (simp add: external_lookup_def set_gain_lookup_def)

text \<open>
  C2, the claim as stated, at a concrete input. Two views are built from the same
  one-image \<open>ImageSetData\<close>, whose external gain lookup is empty. \<open>get_gain\<close> through the
  first view stores a gain map in the external lookup of that view; so does a direct
  \<open>set_data\<close>. The external gain lookup read through the second view is still empty.
\<close>

theorem external_lookup_not_shared:
  "item_data (lookup_gain (external_lookup
     (snd (get_gain (one_image_store [scenario_panel])
             (ImageSet_init (one_image_data empty_lookup)) 0))))
     = [uniform_tile 100 100 1] \<and>
   item_data (lookup_gain (external_lookup
     (set_gain_lookup (ImageSet_init (one_image_data empty_lookup)) ''gain''
        [uniform_tile 100 100 2])))
     = [uniform_tile 100 100 2] \<and>
   item_data (lookup_gain (external_lookup (ImageSet_init (one_image_data empty_lookup)))) = []"
  by (simp add: get_gain_def empty_image_def one_image_view_detector
      get_gain_panel_def gain_map_def get_image_size_def scenario_panel_def
      external_lookup_set_gain_lookup empty_lookup_view_gain)


section \<open>Properties of the gain map\<close>

lemma panel_gains_positive:
  "list_all (\<lambda>p. get_gain_panel p > 0) detector \<Longrightarrow>
   panel_gains detector = (True, map get_gain_panel detector)"
  by (induction detector) auto

lemma panel_gains_not_positive:
  "\<not> list_all (\<lambda>p. get_gain_panel p > 0) detector \<Longrightarrow> fst (panel_gains detector) = False"
  by (induction detector) (auto split: prod.splits)

lemma gain_map_panel_gains:
  "gain_map detector (map get_gain_panel detector) = panel_gain_map detector"
  unfolding gain_map_def panel_gain_map_def
  by (rule nth_equalityI) simp_all

lemma get_gain_lookup_nonempty:
  "\<not> empty_image (item_data (lookup_gain (external_lookup v))) \<Longrightarrow>
   get_gain h v index = (Inr (item_data (lookup_gain (external_lookup v))), v)"
  by (simp add: get_gain_def)

text \<open>
  C3, as amended. Let the external gain lookup of the view be empty and the detector of
  image \<open>index\<close> be \<open>detector\<close>. If every panel of the detector has a gain above 0,
  \<open>get_gain\<close> builds the map with one uniform tile per panel, stores it with an empty
  file name in the external gain lookup of the view and returns it; if moreover the
  detector has a panel, every later \<open>get_gain\<close> on the view, for whatever image and
  store, returns that map and changes nothing. If some panel has a gain of 0 or less,
  \<open>get_gain\<close> returns the empty image and leaves the view as it is.
\<close>

theorem get_gain_synthesis:
  assumes empty: "empty_image (item_data (lookup_gain (external_lookup v)))"
    and det: "ImageSet_get_detector_for_image h v index = Inr (Some detector)"
  shows "(list_all (\<lambda>p. get_gain_panel p > 0) detector \<longrightarrow>
            get_gain h v index
              = (Inr (panel_gain_map detector), set_gain_lookup v [] (panel_gain_map detector)) \<and>
            (detector \<noteq> [] \<longrightarrow>
               get_gain h2 (set_gain_lookup v [] (panel_gain_map detector)) index2
                 = (Inr (panel_gain_map detector),
                    set_gain_lookup v [] (panel_gain_map detector)))) \<and>
         (\<not> list_all (\<lambda>p. get_gain_panel p > 0) detector \<longrightarrow>
            get_gain h v index = (Inr [], v))"
proof (intro conjI impI)
  assume pos: "list_all (\<lambda>p. get_gain_panel p > 0) detector"
  show "get_gain h v index
          = (Inr (panel_gain_map detector), set_gain_lookup v [] (panel_gain_map detector))"
    using empty det
    by (simp add: get_gain_def panel_gains_positive [OF pos] gain_map_panel_gains
        external_lookup_set_gain_lookup)
next
  assume "detector \<noteq> []"
  then have "\<not> empty_image (item_data (lookup_gain
       (external_lookup (set_gain_lookup v [] (panel_gain_map detector)))))"
    by (simp add: external_lookup_set_gain_lookup empty_image_def panel_gain_map_def)
  then show "get_gain h2 (set_gain_lookup v [] (panel_gain_map detector)) index2
          = (Inr (panel_gain_map detector), set_gain_lookup v [] (panel_gain_map detector))"
    by (simp add: get_gain_lookup_nonempty external_lookup_set_gain_lookup)
next
  assume neg: "\<not> list_all (\<lambda>p. get_gain_panel p > 0) detector"
  have "fst (panel_gains detector) = False"
    by (rule panel_gains_not_positive [OF neg])
  then obtain gs where "panel_gains detector = (False, gs)"
    by (cases "panel_gains detector") simp
  then show "get_gain h v index = (Inr [], v)"
    using empty det by (simp add: get_gain_def empty_image_def)
qed

theorem get_gain_synthesis_witness:
  "get_gain (one_image_store [scenario_panel]) (ImageSet_init (one_image_data empty_lookup)) 0
     = (Inr [uniform_tile 100 100 1],
        set_gain_lookup (ImageSet_init (one_image_data empty_lookup)) [] [uniform_tile 100 100 1]) \<and>
   get_gain (one_image_store []) (set_gain_lookup (ImageSet_init (one_image_data empty_lookup)) []
        [uniform_tile 100 100 1]) 7
     = (Inr [uniform_tile 100 100 1],
        set_gain_lookup (ImageSet_init (one_image_data empty_lookup)) [] [uniform_tile 100 100 1]) \<and>
   get_gain (one_image_store [scenario_panel\<lparr>Panel_gain := 0\<rparr>])
       (ImageSet_init (one_image_data empty_lookup)) 0
     = (Inr [], ImageSet_init (one_image_data empty_lookup))"
proof -
  have pm: "panel_gain_map [scenario_panel] = [uniform_tile 100 100 1]"
    by (simp add: panel_gain_map_def get_image_size_def get_gain_panel_def scenario_panel_def)
  have p1: "list_all (\<lambda>p. get_gain_panel p > 0) [scenario_panel]"
    by (simp add: get_gain_panel_def scenario_panel_def)
  have p0: "\<not> list_all (\<lambda>p. get_gain_panel p > 0) [scenario_panel\<lparr>Panel_gain := 0\<rparr>]"
    by (simp add: get_gain_panel_def)
  show ?thesis
    using get_gain_synthesis [OF empty_lookup_view_gain_empty one_image_view_detector,
          of "[scenario_panel]" "one_image_store []" 7]
      get_gain_synthesis [OF empty_lookup_view_gain_empty one_image_view_detector,
          of "[scenario_panel\<lparr>Panel_gain := 0\<rparr>]"]
      p1 p0
    by (simp add: pm)
qed

text \<open>
  C3, the claim as stated, at a concrete input: the detector of the image has no panel,
  so every panel has a positive gain. \<open>get_gain\<close> returns the empty image, and the
  external gain lookup is empty after the call as it was before it.
\<close>

theorem get_gain_no_panels:
  "fst (get_gain (one_image_store []) (ImageSet_init (one_image_data empty_lookup)) 0) = Inr [] \<and>
   empty_image (item_data (lookup_gain (external_lookup
     (snd (get_gain (one_image_store []) (ImageSet_init (one_image_data empty_lookup)) 0)))))"
  by (simp add: get_gain_def empty_lookup_view_gain one_image_view_detector gain_map_def
      external_lookup_set_gain_lookup empty_image_def)


section \<open>Properties of the corrected data\<close>

text \<open>
  On a fresh view the index \<open>2 ^ 64 - 1\<close> equals the converted -1 of the cache:
  \<open>get_raw_data\<close> returns the default-constructed image of the cache and reads nothing.
\<close>

lemma get_raw_data_fresh_cache:
  "get_raw_data (ImageSet_init d) 18446744073709551615 = (Inr Empty_Buffer, ImageSet_init d)"
  by (simp add: get_raw_data_def ImageSet_init_def DataCache_init_def size_t_of_int_def)

lemma get_raw_data_first_read:
  "get_raw_data (ImageSet_init (one_image_data l)) 0
     = (Inr (Int_Image [\<lparr>tile_accessor = (1, 2), tile_data = [10, 20]\<rparr>]),
        (ImageSet_init (one_image_data l))
          \<lparr>iset_data_cache :=
             \<lparr>cache_image = Int_Image [\<lparr>tile_accessor = (1, 2), tile_data = [10, 20]\<rparr>],
              cache_index = 0\<rparr>\<rparr>)"
  by (simp add: get_raw_data_def ImageSet_init_def DataCache_init_def size_t_of_int_def
      int_of_size_t_def cint_wrap_def one_image_data_def ImageSetData_size_def
      ImageSetData_get_data_def one_tile_reader_def Let_def)

text \<open>Neither element loop touches an element other than the one numbered like the tile.\<close>

lemma apply_pedestal_other:
  "apply_pedestal js i c p = Inr c' \<Longrightarrow> k \<noteq> i \<Longrightarrow> c' ! k = c ! k"
  by (induction js arbitrary: c) (auto split: if_splits)

lemma apply_gain_other:
  "apply_gain js i c g = Inr c' \<Longrightarrow> k \<noteq> i \<Longrightarrow> c' ! k = c ! k"
  by (induction js arbitrary: c) (auto split: if_splits)

text \<open>
  With an empty gain image \<open>get_corrected_data\<close> fails its first assertion on every raw
  image that has a tile.
\<close>

lemma get_corrected_data_empty_gain:
  "get_raw_data v index = (Inr raw, v1) \<Longrightarrow> get_gain h v1 index = (Inr [], v2) \<Longrightarrow>
   as_double raw \<noteq> [] \<Longrightarrow> get_corrected_data h v index = (Inl Assertion_Failed, v2)"
  by (simp add: get_corrected_data_def n_tiles_def)

text \<open>
  C1, the code at a concrete input. The raw image is one tile holding 10 and 20, the
  pedestal tile holds 1 and 2, the gain tile 2 and 4; elementwise correction is
  (10 - 1) / 2 and (20 - 2) / 4. The code returns 2 and 20: it subtracts the first
  pedestal value twice from the first element and divides it twice by the first gain
  value, and leaves the second element as it was.
\<close>

theorem get_corrected_data_one_tile:
  "fst (get_corrected_data (one_image_store [scenario_panel])
          (ImageSet_init (one_image_data gain_pedestal_lookup)) 0)
     = Inr [\<lparr>tile_accessor = (1, 2), tile_data = [2, 20]\<rparr>]"
  by (simp add: get_corrected_data_def get_raw_data_def ImageSet_init_def one_image_data_def
      ImageSetData_size_def ImageSetData_get_data_def one_tile_reader_def as_double_def
      get_gain_def external_lookup_def empty_image_def gain_pedestal_lookup_def get_pedestal_def
      n_tiles_def correct_tile_def tile_size_def Let_def upt_conv_Cons
      DataCache_init_def size_t_of_int_def)

text \<open>
  C4, the code at a concrete input. The external gain and pedestal lookups are empty and
  the only panel has gain 0, so no gain map is synthesised; the raw image has one tile.
  The code does not return the raw data: it fails the assertion that the raw image and
  the gain image have the same number of tiles.
\<close>

theorem get_corrected_data_without_lookups:
  "fst (get_corrected_data (one_image_store [scenario_panel\<lparr>Panel_gain := 0\<rparr>])
          (ImageSet_init (one_image_data empty_lookup)) 0)
     = Inl Assertion_Failed"
  by (simp add: get_corrected_data_def get_raw_data_def ImageSet_init_def one_image_data_def
      ImageSetData_size_def ImageSetData_get_data_def one_tile_reader_def as_double_def
      get_gain_def external_lookup_def empty_image_def empty_lookup_def get_pedestal_def
      n_tiles_def correct_tile_def tile_size_def ImageSet_get_detector_for_image_def
      ImageSetData_get_detector_def one_image_store_def get_gain_panel_def Let_def
      DataCache_init_def size_t_of_int_def)


section \<open>Properties of the sweep constructors\<close>

lemma set_models_at_wf:
  "ImageSetData_wf h d \<Longrightarrow> ImageSetData_wf (set_models_at d b dt g sc idx i h) d"
  by (simp add: ImageSetData_wf_def set_models_at_def)

lemma fold_set_models_at_wf:
  "ImageSetData_wf h d \<Longrightarrow> ImageSetData_wf (fold (set_models_at d b dt g sc idx) js h) d"
  by (induction js arbitrary: h) (simp_all add: set_models_at_wf)

lemma set_models_step:
  assumes "ImageSetData_wf h d" and "iset_data v = d" and "iset_indices v = idx"
    and "i < length idx" and "idx ! i < ImageSetData_size d"
    and "get_num_images (scan_at scan i) = 1"
  shows "ImageSweep_set_models get_num_images scan_at v b dt g scan (i # js) h
       = ImageSweep_set_models get_num_images scan_at v b dt g scan js
           (set_models_at d b dt g (\<lambda>i. Some (scan_at scan i)) idx i h)"
  using assms
  by (simp add: ImageSetData_wf_def set_models_at_def
      ImageSet_set_beam_for_image_def ImageSetData_set_beam_def
      ImageSet_set_detector_for_image_def ImageSetData_set_detector_def
      ImageSet_set_goniometer_for_image_def ImageSetData_set_goniometer_def
      ImageSet_set_scan_for_image_def ImageSetData_set_scan_def)

lemma set_models_loop:
  assumes "iset_data v = d" and "iset_indices v = idx"
    and "\<forall>i\<in>set js. i < length idx \<and> idx ! i < ImageSetData_size d \<and>
           get_num_images (scan_at scan i) = 1"
  shows "ImageSetData_wf h d \<Longrightarrow>
         ImageSweep_set_models get_num_images scan_at v b dt g scan js h
       = (Inr (), fold (set_models_at d b dt g (\<lambda>i. Some (scan_at scan i)) idx) js h)"
  using assms(3)
proof (induction js arbitrary: h)
  case Nil
  then show ?case by simp
next
  case (Cons i js)
  have step: "ImageSweep_set_models get_num_images scan_at v b dt g scan (i # js) h
       = ImageSweep_set_models get_num_images scan_at v b dt g scan js
           (set_models_at d b dt g (\<lambda>i. Some (scan_at scan i)) idx i h)"
    using Cons.prems assms(1,2) by (intro set_models_step) simp_all
  have "ImageSetData_wf (set_models_at d b dt g (\<lambda>i. Some (scan_at scan i)) idx i h) d"
    using Cons.prems(1) by (rule set_models_at_wf)
  then show ?case
    using Cons.IH Cons.prems(2) step by simp
qed

text \<open>The model arrays after the loop.\<close>

lemma fold_beams:
  "beam_arrays (fold (set_models_at d b dt g sc idx) js h) (isd_beams d)
     = fold (\<lambda>i a. a[idx ! i := b]) js (beam_arrays h (isd_beams d))"
  by (induction js arbitrary: h) (simp_all add: set_models_at_def)

lemma fold_detectors:
  "detector_arrays (fold (set_models_at d b dt g sc idx) js h) (isd_detectors d)
     = fold (\<lambda>i a. a[idx ! i := dt]) js (detector_arrays h (isd_detectors d))"
  by (induction js arbitrary: h) (simp_all add: set_models_at_def)

lemma fold_goniometers:
  "goniometer_arrays (fold (set_models_at d b dt g sc idx) js h) (isd_goniometers d)
     = fold (\<lambda>i a. a[idx ! i := g]) js (goniometer_arrays h (isd_goniometers d))"
  by (induction js arbitrary: h) (simp_all add: set_models_at_def)

lemma fold_scans:
  "scan_arrays (fold (set_models_at d b dt g sc idx) js h) (isd_scans d)
     = fold (\<lambda>i a. a[idx ! i := sc i]) js (scan_arrays h (isd_scans d))"
  by (induction js arbitrary: h) (simp_all add: set_models_at_def)

lemma length_fold_update: "length (fold (\<lambda>i a. a[f i := val i]) js a) = length a"
  by (induction js arbitrary: a) simp_all

lemma fold_update_other:
  "k \<notin> f ` set js \<Longrightarrow> fold (\<lambda>i a. a[f i := val i]) js a ! k = a ! k"
  by (induction js arbitrary: a) auto

lemma fold_update_nth:
  "distinct (map f js) \<Longrightarrow> i \<in> set js \<Longrightarrow> f i < length a \<Longrightarrow>
   fold (\<lambda>i a. a[f i := val i]) js a ! f i = val i"
proof (induction js arbitrary: a)
  case Nil
  then show ?case by simp
next
  case (Cons j js)
  show ?case
  proof (cases "i \<in> set js")
    case True
    then show ?thesis using Cons by simp
  next
    case False
    then have "i = j" using Cons.prems(2) by simp
    moreover have "f j \<notin> f ` set js" using Cons.prems(1) by simp
    ultimately show ?thesis using Cons.prems(3) by (simp add: fold_update_other)
  qed
qed

lemma sequential_nth:
  "sequential idx \<Longrightarrow> i < length idx \<Longrightarrow> idx ! i = idx ! 0 + i"
proof (induction i)
  case 0
  then show ?case by simp
next
  case (Suc i)
  then have "idx ! Suc i = idx ! i + 1"
    by (auto simp: sequential_def list_all_iff)
  then show ?case using Suc by simp
qed

lemma sequential_distinct: "sequential idx \<Longrightarrow> distinct idx"
  by (auto simp: distinct_conv_nth sequential_nth)

lemma not_sequentialI:
  "0 < i \<Longrightarrow> i < length idx \<Longrightarrow> idx ! i \<noteq> idx ! (i - 1) + 1 \<Longrightarrow> \<not> sequential idx"
  by (auto simp: sequential_def list_all_iff)

lemma sequential_upt: "sequential [a..<b]"
  by (auto simp: sequential_def list_all_iff)

lemma af_max_bound:
  "idx \<noteq> [] \<Longrightarrow> \<forall>k\<in>set idx. k < n \<Longrightarrow> \<exists>m. af_max idx = Inr m \<and> m < n"
proof (cases idx)
  case Nil
  assume "idx \<noteq> []"
  with Nil show ?thesis by simp
next
  case (Cons x rest)
  assume "\<forall>k\<in>set idx. k < n"
  moreover have "fold max rest x = Max (set (x # rest))"
    by (simp only: Max.set_eq_fold)
  ultimately show ?thesis using Cons by (simp add: af_max_def)
qed


lemma ImageSet_init_indices_ok:
  "idx \<noteq> [] \<Longrightarrow> \<forall>k\<in>set idx. k < ImageSetData_size d \<Longrightarrow>
   ImageSet_init_indices d idx = Inr \<lparr>iset_data = d, iset_indices = idx, iset_data_cache = DataCache_init\<rparr>"
  using af_max_bound [of idx "ImageSetData_size d"]
  by (auto simp: ImageSet_init_indices_def)

lemma sweep_slots_after_loop:
  fixes h :: "('b, 'g, 's) Store"
  assumes wf: "ImageSetData_wf h d"
    and bound: "\<forall>k\<in>set idx. k < ImageSetData_size d"
    and dist: "distinct idx"
    and data: "iset_data w = d" and ind: "iset_indices w = idx"
    and i: "i < length idx"
    and h'_def: "h' = fold (set_models_at d b dt g sc idx) [0..<length idx] h"
  shows "ImageSet_get_beam_for_image h' w i = Inr b"
    and "ImageSet_get_detector_for_image h' w i = Inr dt"
    and "ImageSet_get_goniometer_for_image h' w i = Inr g"
    and "ImageSet_get_scan_for_image h' w i = Inr (sc i)"
proof -
  have d: "distinct (map ((!) idx) [0..<length idx])"
    using dist by (simp add: map_nth)
  have m: "i \<in> set [0..<length idx]" using i by simp
  have k: "idx ! i < ImageSetData_size d" using bound i by simp
  have len: "length (beam_arrays h (isd_beams d)) = ImageSetData_size d"
    "length (detector_arrays h (isd_detectors d)) = ImageSetData_size d"
    "length (goniometer_arrays h (isd_goniometers d)) = ImageSetData_size d"
    "length (scan_arrays h (isd_scans d)) = ImageSetData_size d"
    using wf by (simp_all add: ImageSetData_wf_def)
  show "ImageSet_get_beam_for_image h' w i = Inr b"
    using fold_update_nth [OF d m, of "beam_arrays h (isd_beams d)" "\<lambda>i. b"] k i
    by (simp add: h'_def ImageSet_get_beam_for_image_def ImageSetData_get_beam_def data ind
        fold_beams length_fold_update len)
  show "ImageSet_get_detector_for_image h' w i = Inr dt"
    using fold_update_nth [OF d m, of "detector_arrays h (isd_detectors d)" "\<lambda>i. dt"] k i
    by (simp add: h'_def ImageSet_get_detector_for_image_def ImageSetData_get_detector_def data ind
        fold_detectors length_fold_update len)
  show "ImageSet_get_goniometer_for_image h' w i = Inr g"
    using fold_update_nth [OF d m, of "goniometer_arrays h (isd_goniometers d)" "\<lambda>i. g"] k i
    by (simp add: h'_def ImageSet_get_goniometer_for_image_def ImageSetData_get_goniometer_def
        data ind fold_goniometers length_fold_update len)
  show "ImageSet_get_scan_for_image h' w i = Inr (sc i)"
    using fold_update_nth [OF d m, of "scan_arrays h (isd_scans d)" sc] k i
    by (simp add: h'_def ImageSet_get_scan_for_image_def ImageSetData_get_scan_def data ind
        fold_scans length_fold_update len)
qed

lemma ImageSweep_init_indices_ok:
  fixes h :: "('b, 'g, 's) Store"
  assumes wf: "ImageSetData_wf h d"
    and ne: "idx \<noteq> []"
    and bound: "\<forall>k\<in>set idx. k < ImageSetData_size d"
    and len: "length idx = get_num_images scan"
    and seq: "sequential idx"
    and one: "\<forall>i<length idx. get_num_images (scan_at scan i) = 1"
    and base_def: "base = \<lparr>iset_data = d, iset_indices = idx, iset_data_cache = DataCache_init\<rparr>"
    and h'_def: "h' = fold (set_models_at d (Some beam) (Some det) (Some gon)
                        (\<lambda>i. Some (scan_at scan i)) idx) [0..<length idx] h"
  shows "ImageSweep_init_indices get_num_images scan_at d idx beam det gon scan h
           = (Inr (ImageSweep_of base beam det gon scan), h')"
proof -
  have loop: "ImageSweep_set_models get_num_images scan_at base
                (Some beam) (Some det) (Some gon) scan [0..<length idx] h = (Inr (), h')"
    unfolding h'_def
    using bound one by (intro set_models_loop [OF _ _ _ wf]) (simp_all add: base_def)
  show ?thesis
    using len seq loop
    by (simp add: ImageSweep_init_indices_def ImageSet_init_indices_ok [OF ne bound]
        size_view_def base_def)
qed

lemma ImageSweep_init_ok:
  fixes h :: "('b, 'g, 's) Store"
  assumes wf: "ImageSetData_wf h d"
    and len: "ImageSetData_size d = get_num_images scan"
    and one: "\<forall>i<ImageSetData_size d. get_num_images (scan_at scan i) = 1"
    and h'_def: "h' = fold (set_models_at d (Some beam) (Some det) (Some gon)
                        (\<lambda>i. Some (scan_at scan i)) [0..<ImageSetData_size d])
                   [0..<ImageSetData_size d] h"
  shows "ImageSweep_init get_num_images scan_at d beam det gon scan h
           = (Inr (ImageSweep_of (ImageSet_init d) beam det gon scan), h')"
proof -
  have loop: "ImageSweep_set_models get_num_images scan_at (ImageSet_init d)
                (Some beam) (Some det) (Some gon) scan [0..<ImageSetData_size d] h = (Inr (), h')"
    unfolding h'_def
    using one by (intro set_models_loop [OF _ _ _ wf]) (simp_all add: ImageSet_init_def)
  show ?thesis
    using len loop
    by (simp add: ImageSweep_init_def size_view_def ImageSet_init_def Let_def)
qed

text \<open>
  C5, as amended. The constructor of a sweep over all images fails its assertion when
  the scan does not have as many images as the data; the constructor with indices fails
  when the scan does not have as many images as there are indices, or when the indices
  are not sequential. On a store that fits the data, and with a scan each of whose
  slices \<open>scan[i]\<close> has one image, the constructor over all images succeeds when the
  counts agree, and the constructor with indices succeeds when the counts agree, the
  indices are sequential, there is at least one index and every index is below the size
  of the data. After a successful construction every logical index of the view reads
  the given beam, detector and goniometer, and index \<open>i\<close> reads the scan \<open>scan[i]\<close>.
\<close>

theorem ImageSweep_construction:
  fixes h :: "('b, 'g, 's) Store"
  shows
  "(ImageSetData_size d \<noteq> get_num_images scan \<longrightarrow>
      ImageSweep_init get_num_images scan_at d beam det gon scan h = (Inl Assertion_Failed, h)) \<and>
   (length idx \<noteq> get_num_images scan \<or> \<not> sequential idx \<longrightarrow>
      (\<exists>e. ImageSweep_init_indices get_num_images scan_at d idx beam det gon scan h = (Inl e, h))) \<and>
   (ImageSetData_wf h d \<and> ImageSetData_size d = get_num_images scan \<and>
    (\<forall>i<ImageSetData_size d. get_num_images (scan_at scan i) = 1) \<longrightarrow>
      (\<exists>h'. ImageSweep_init get_num_images scan_at d beam det gon scan h
               = (Inr (ImageSweep_of (ImageSet_init d) beam det gon scan), h') \<and>
            (\<forall>i<ImageSetData_size d.
               ImageSet_get_beam_for_image h' (ImageSet_init d) i = Inr (Some beam) \<and>
               ImageSet_get_detector_for_image h' (ImageSet_init d) i = Inr (Some det) \<and>
               ImageSet_get_goniometer_for_image h' (ImageSet_init d) i = Inr (Some gon) \<and>
               ImageSet_get_scan_for_image h' (ImageSet_init d) i = Inr (Some (scan_at scan i))))) \<and>
   (ImageSetData_wf h d \<and> idx \<noteq> [] \<and> (\<forall>k\<in>set idx. k < ImageSetData_size d) \<and>
    length idx = get_num_images scan \<and> sequential idx \<and>
    (\<forall>i<length idx. get_num_images (scan_at scan i) = 1) \<longrightarrow>
      (\<exists>h' base. ImageSet_init_indices d idx = Inr base \<and>
            ImageSweep_init_indices get_num_images scan_at d idx beam det gon scan h
               = (Inr (ImageSweep_of base beam det gon scan), h') \<and>
            (\<forall>i<length idx.
               ImageSet_get_beam_for_image h' base i = Inr (Some beam) \<and>
               ImageSet_get_detector_for_image h' base i = Inr (Some det) \<and>
               ImageSet_get_goniometer_for_image h' base i = Inr (Some gon) \<and>
               ImageSet_get_scan_for_image h' base i = Inr (Some (scan_at scan i)))))"
proof (intro conjI impI)
  assume "ImageSetData_size d \<noteq> get_num_images scan"
  then show "ImageSweep_init get_num_images scan_at d beam det gon scan h
               = (Inl Assertion_Failed, h)"
    by (simp add: ImageSweep_init_def)
next
  assume "length idx \<noteq> get_num_images scan \<or> \<not> sequential idx"
  then show "\<exists>e. ImageSweep_init_indices get_num_images scan_at d idx beam det gon scan h
               = (Inl e, h)"
    by (auto simp: ImageSweep_init_indices_def split: sum.splits)
next
  assume a: "ImageSetData_wf h d \<and> ImageSetData_size d = get_num_images scan \<and>
    (\<forall>i<ImageSetData_size d. get_num_images (scan_at scan i) = 1)"
  define h' where "h' = fold (set_models_at d (Some beam) (Some det) (Some gon)
                        (\<lambda>i. Some (scan_at scan i)) [0..<ImageSetData_size d])
                   [0..<ImageSetData_size d] h"
  have r: "ImageSweep_init get_num_images scan_at d beam det gon scan h
           = (Inr (ImageSweep_of (ImageSet_init d) beam det gon scan), h')"
    using a h'_def by (intro ImageSweep_init_ok) simp_all
  have s: "\<forall>i<ImageSetData_size d.
               ImageSet_get_beam_for_image h' (ImageSet_init d) i = Inr (Some beam) \<and>
               ImageSet_get_detector_for_image h' (ImageSet_init d) i = Inr (Some det) \<and>
               ImageSet_get_goniometer_for_image h' (ImageSet_init d) i = Inr (Some gon) \<and>
               ImageSet_get_scan_for_image h' (ImageSet_init d) i = Inr (Some (scan_at scan i))"
    using a h'_def
    sweep_slots_after_loop [of h d "[0..<ImageSetData_size d]" "ImageSet_init d" _ h'
          "Some beam" "Some det" "Some gon" "\<lambda>i. Some (scan_at scan i)"]
    by (simp add: ImageSet_init_def)
  from r s show "\<exists>h'. ImageSweep_init get_num_images scan_at d beam det gon scan h
               = (Inr (ImageSweep_of (ImageSet_init d) beam det gon scan), h') \<and>
            (\<forall>i<ImageSetData_size d.
               ImageSet_get_beam_for_image h' (ImageSet_init d) i = Inr (Some beam) \<and>
               ImageSet_get_detector_for_image h' (ImageSet_init d) i = Inr (Some det) \<and>
               ImageSet_get_goniometer_for_image h' (ImageSet_init d) i = Inr (Some gon) \<and>
               ImageSet_get_scan_for_image h' (ImageSet_init d) i = Inr (Some (scan_at scan i)))"
    by blast
next
  assume a: "ImageSetData_wf h d \<and> idx \<noteq> [] \<and> (\<forall>k\<in>set idx. k < ImageSetData_size d) \<and>
    length idx = get_num_images scan \<and> sequential idx \<and>
    (\<forall>i<length idx. get_num_images (scan_at scan i) = 1)"
  define base where "base = \<lparr>iset_data = d, iset_indices = idx, iset_data_cache = DataCache_init\<rparr>"
  define h' where "h' = fold (set_models_at d (Some beam) (Some det) (Some gon)
                        (\<lambda>i. Some (scan_at scan i)) idx) [0..<length idx] h"
  have b: "ImageSet_init_indices d idx = Inr base"
    unfolding base_def using a by (intro ImageSet_init_indices_ok) simp_all
  have r: "ImageSweep_init_indices get_num_images scan_at d idx beam det gon scan h
               = (Inr (ImageSweep_of base beam det gon scan), h')"
    using a h'_def base_def by (intro ImageSweep_init_indices_ok) simp_all
  have s: "\<forall>i<length idx.
               ImageSet_get_beam_for_image h' base i = Inr (Some beam) \<and>
               ImageSet_get_detector_for_image h' base i = Inr (Some det) \<and>
               ImageSet_get_goniometer_for_image h' base i = Inr (Some gon) \<and>
               ImageSet_get_scan_for_image h' base i = Inr (Some (scan_at scan i))"
    using a sequential_distinct [of idx] h'_def
    sweep_slots_after_loop [of h d idx base _ h'
          "Some beam" "Some det" "Some gon" "\<lambda>i. Some (scan_at scan i)"]
    by (simp add: base_def)
  from b r s show "\<exists>h' base. ImageSet_init_indices d idx = Inr base \<and>
            ImageSweep_init_indices get_num_images scan_at d idx beam det gon scan h
               = (Inr (ImageSweep_of base beam det gon scan), h') \<and>
            (\<forall>i<length idx.
               ImageSet_get_beam_for_image h' base i = Inr (Some beam) \<and>
               ImageSet_get_detector_for_image h' base i = Inr (Some det) \<and>
               ImageSet_get_goniometer_for_image h' base i = Inr (Some gon) \<and>
               ImageSet_get_scan_for_image h' base i = Inr (Some (scan_at scan i)))"
    by blast
qed


lemma two_image_wf: "ImageSetData_wf two_image_store two_image_data"
  by (simp add: ImageSetData_wf_def two_image_store_def two_image_data_def ImageSetData_size_def)

lemma two_image_size: "ImageSetData_size two_image_data = 2"
  by (simp add: ImageSetData_size_def two_image_data_def)

lemma example_scan_one: "snd (example_scan_at s i) = 1"
  by (simp add: example_scan_at_def)

lemma sequential_0_1: "sequential [0, Suc 0]"
  by (simp add: sequential_def upt_conv_Cons)

lemma not_sequential_1_0: "\<not> sequential [Suc 0, 0]"
  by (simp add: sequential_def upt_conv_Cons)

text \<open>
  Two images, a scan of three images (the counts differ), the indices 1, 0 (not
  sequential), and a scan of two images with all images or with the indices 0, 1.
\<close>

theorem ImageSweep_construction_witness:
  "ImageSweep_init snd example_scan_at two_image_data (7::nat) [scenario_panel] (9::nat) (0, 3)
       two_image_store
     = (Inl Assertion_Failed, two_image_store) \<and>
   (\<exists>e. ImageSweep_init_indices snd example_scan_at two_image_data [1, 0]
          (7::nat) [scenario_panel] (9::nat) (0, 3) two_image_store = (Inl e, two_image_store)) \<and>
   fst (ImageSweep_init snd example_scan_at two_image_data (7::nat) [scenario_panel] (9::nat) (0, 2)
          two_image_store)
     = Inr (ImageSweep_of (ImageSet_init two_image_data) 7 [scenario_panel] 9 (0, 2)) \<and>
   ImageSet_get_beam_for_image
     (snd (ImageSweep_init snd example_scan_at two_image_data (7::nat) [scenario_panel] (9::nat)
             (0, 2) two_image_store))
     (ImageSet_init two_image_data) 0 = Inr (Some 7) \<and>
   ImageSet_get_scan_for_image
     (snd (ImageSweep_init snd example_scan_at two_image_data (7::nat) [scenario_panel] (9::nat)
             (0, 2) two_image_store))
     (ImageSet_init two_image_data) 1 = Inr (Some (1, 1)) \<and>
   fst (ImageSweep_init_indices snd example_scan_at two_image_data [0, 1]
          (7::nat) [scenario_panel] (9::nat) (0, 2) two_image_store)
     = Inr (ImageSweep_of \<lparr>iset_data = two_image_data, iset_indices = [0, 1],
                           iset_data_cache = DataCache_init\<rparr> 7 [scenario_panel] 9 (0, 2)) \<and>
   ImageSet_get_detector_for_image
     (snd (ImageSweep_init_indices snd example_scan_at two_image_data [0, 1]
             (7::nat) [scenario_panel] (9::nat) (0, 2) two_image_store))
     \<lparr>iset_data = two_image_data, iset_indices = [0, 1], iset_data_cache = DataCache_init\<rparr> 1
       = Inr (Some [scenario_panel]) \<and>
   ImageSet_get_scan_for_image
     (snd (ImageSweep_init_indices snd example_scan_at two_image_data [0, 1]
             (7::nat) [scenario_panel] (9::nat) (0, 2) two_image_store))
     \<lparr>iset_data = two_image_data, iset_indices = [0, 1], iset_data_cache = DataCache_init\<rparr> 1
       = Inr (Some (1, 1))"
proof -
  note fails = ImageSweep_construction [of two_image_data snd "(0, 3)" example_scan_at
        7 "[scenario_panel]" 9 two_image_store "[1, 0]"]
  note works = ImageSweep_construction [of two_image_data snd "(0, 2)" example_scan_at
        7 "[scenario_panel]" 9 two_image_store "[0, 1]"]
  have h1: "ImageSetData_size two_image_data \<noteq> snd (0 :: nat, 3 :: nat)"
    by (simp add: two_image_size)
  have c1: "ImageSweep_init snd example_scan_at two_image_data (7::nat) [scenario_panel] (9::nat)
       (0, 3) two_image_store = (Inl Assertion_Failed, two_image_store)"
    using fails h1 by blast
  have h2: "length [1, 0 :: nat] \<noteq> snd (0 :: nat, 3 :: nat) \<or> \<not> sequential [1, 0]"
    using not_sequential_1_0 by simp
  have c2: "\<exists>e. ImageSweep_init_indices snd example_scan_at two_image_data [1, 0]
          (7::nat) [scenario_panel] (9::nat) (0, 3) two_image_store = (Inl e, two_image_store)"
    using fails h2 by blast
  have h3: "ImageSetData_wf two_image_store two_image_data \<and>
      ImageSetData_size two_image_data = snd (0 :: nat, 2 :: nat) \<and>
      (\<forall>i<ImageSetData_size two_image_data. snd (example_scan_at (0, 2) i) = 1)"
    by (simp add: two_image_wf two_image_size example_scan_one)
  from works h3 obtain h' where
    r3: "ImageSweep_init snd example_scan_at two_image_data (7::nat) [scenario_panel] (9::nat)
           (0, 2) two_image_store
         = (Inr (ImageSweep_of (ImageSet_init two_image_data) 7 [scenario_panel] 9 (0, 2)), h')"
    and s3: "\<forall>i<ImageSetData_size two_image_data.
               ImageSet_get_beam_for_image h' (ImageSet_init two_image_data) i = Inr (Some 7) \<and>
               ImageSet_get_detector_for_image h' (ImageSet_init two_image_data) i
                 = Inr (Some [scenario_panel]) \<and>
               ImageSet_get_goniometer_for_image h' (ImageSet_init two_image_data) i
                 = Inr (Some 9) \<and>
               ImageSet_get_scan_for_image h' (ImageSet_init two_image_data) i
                 = Inr (Some (example_scan_at (0, 2) i))"
    by blast
  have c3: "fst (ImageSweep_init snd example_scan_at two_image_data (7::nat) [scenario_panel]
                   (9::nat) (0, 2) two_image_store)
     = Inr (ImageSweep_of (ImageSet_init two_image_data) 7 [scenario_panel] 9 (0, 2)) \<and>
   ImageSet_get_beam_for_image
     (snd (ImageSweep_init snd example_scan_at two_image_data (7::nat) [scenario_panel] (9::nat)
             (0, 2) two_image_store))
     (ImageSet_init two_image_data) 0 = Inr (Some 7) \<and>
   ImageSet_get_scan_for_image
     (snd (ImageSweep_init snd example_scan_at two_image_data (7::nat) [scenario_panel] (9::nat)
             (0, 2) two_image_store))
     (ImageSet_init two_image_data) 1 = Inr (Some (1, 1))"
    using s3 r3 by (simp add: two_image_size example_scan_at_def)
  have h4: "ImageSetData_wf two_image_store two_image_data \<and> [0, 1 :: nat] \<noteq> [] \<and>
      (\<forall>k\<in>set [0, 1]. k < ImageSetData_size two_image_data) \<and>
      length [0, 1 :: nat] = snd (0 :: nat, 2 :: nat) \<and> sequential [0, 1] \<and>
      (\<forall>i<length [0, 1 :: nat]. snd (example_scan_at (0, 2) i) = 1)"
    using sequential_0_1 by (simp add: two_image_wf two_image_size example_scan_one)
  have base: "ImageSet_init_indices two_image_data [0, 1]
     = Inr \<lparr>iset_data = two_image_data, iset_indices = [0, 1], iset_data_cache = DataCache_init\<rparr>"
    by (simp add: ImageSet_init_indices_def af_max_def two_image_size)
  from works h4 obtain h'' base' where
    b4: "ImageSet_init_indices two_image_data [0, 1] = Inr base'"
    and r4: "ImageSweep_init_indices snd example_scan_at two_image_data [0, 1]
               (7::nat) [scenario_panel] (9::nat) (0, 2) two_image_store
               = (Inr (ImageSweep_of base' 7 [scenario_panel] 9 (0, 2)), h'')"
    and s4: "\<forall>i<length [0, 1 :: nat].
               ImageSet_get_beam_for_image h'' base' i = Inr (Some 7) \<and>
               ImageSet_get_detector_for_image h'' base' i = Inr (Some [scenario_panel]) \<and>
               ImageSet_get_goniometer_for_image h'' base' i = Inr (Some 9) \<and>
               ImageSet_get_scan_for_image h'' base' i = Inr (Some (example_scan_at (0, 2) i))"
    by blast
  have base': "base' = \<lparr>iset_data = two_image_data, iset_indices = [0, 1], iset_data_cache = DataCache_init\<rparr>"
    using b4 base by simp
  have c4: "fst (ImageSweep_init_indices snd example_scan_at two_image_data [0, 1]
          (7::nat) [scenario_panel] (9::nat) (0, 2) two_image_store)
     = Inr (ImageSweep_of \<lparr>iset_data = two_image_data, iset_indices = [0, 1],
                           iset_data_cache = DataCache_init\<rparr> 7 [scenario_panel] 9 (0, 2)) \<and>
   ImageSet_get_detector_for_image
     (snd (ImageSweep_init_indices snd example_scan_at two_image_data [0, 1]
             (7::nat) [scenario_panel] (9::nat) (0, 2) two_image_store))
     \<lparr>iset_data = two_image_data, iset_indices = [0, 1], iset_data_cache = DataCache_init\<rparr> 1
       = Inr (Some [scenario_panel]) \<and>
   ImageSet_get_scan_for_image
     (snd (ImageSweep_init_indices snd example_scan_at two_image_data [0, 1]
             (7::nat) [scenario_panel] (9::nat) (0, 2) two_image_store))
     \<lparr>iset_data = two_image_data, iset_indices = [0, 1], iset_data_cache = DataCache_init\<rparr> 1
       = Inr (Some (1, 1))"
    using s4 r4 base' by (simp add: example_scan_at_def)
  from c1 c2 c3 c4 show ?thesis by blast
qed

text \<open>
  C5, the claim as stated, at a concrete input: the data has two images, the indices
  are 2 and 3, the scan has two images. The scan has as many images as there are
  indices and the indices are sequential, yet the construction fails: the constructor
  of the base class asserts that the largest index is below the size of the data.
\<close>

theorem ImageSweep_indices_out_of_range:
  "length [2, 3 :: nat] = snd (0 :: nat, 2 :: nat) \<and> sequential [2, 3] \<and>
   ImageSweep_init_indices snd example_scan_at two_image_data [2, 3] (7::nat) [scenario_panel]
       (9::nat) (0, 2) two_image_store
     = (Inl Assertion_Failed, two_image_store)"
  by (simp add: ImageSweep_init_indices_def ImageSet_init_indices_def af_max_def two_image_size
      sequential_def upt_conv_Cons)


end
